theory Spec2Isabelle
  imports Complex_Main
begin

unbundle bit_operations_syntax

section \<open>Python values and exceptions\<close>

text \<open>
  The bridge passes untyped Python values around (\<open>Dict[str, Any]\<close>).  The values that
  occur on the signal path are \<open>None\<close>, booleans, unbounded integers and floats.  A finite
  float is modelled by the real number it denotes; the two kinds of non-finite floats are
  separate constructors, because \<open>int()\<close> raises on them.
\<close>

datatype pyval = PyNone | PyBool bool | PyInt int | PyFloat real | PyNaN | PyInf bool

datatype py_error =
  TypeError | ValueError | OverflowError | KeyError | IndexError | QueueFull | QueueEmpty

text \<open>\<open>int(x)\<close>: truncation towards zero on floats, \<open>0\<close>/\<open>1\<close> on booleans.\<close>

fun py_int :: "pyval \<Rightarrow> py_error + int" where
  "py_int PyNone = Inl TypeError"
| "py_int (PyBool b) = Inr (if b then 1 else 0)"
| "py_int (PyInt i) = Inr i"
| "py_int (PyFloat x) = Inr (if 0 \<le> x then \<lfloor>x\<rfloor> else \<lceil>x\<rceil>)"
| "py_int PyNaN = Inl ValueError"
| "py_int (PyInf s) = Inl OverflowError"

text \<open>Truth value of an object, as tested by \<open>if x:\<close> and \<open>not x\<close>.\<close>

fun truthy :: "pyval \<Rightarrow> bool" where
  "truthy PyNone = False"
| "truthy (PyBool b) = b"
| "truthy (PyInt i) = (i \<noteq> 0)"
| "truthy (PyFloat x) = (x \<noteq> 0)"
| "truthy PyNaN = True"
| "truthy (PyInf s) = True"

text \<open>The number a numeric value denotes (\<open>True\<close> is \<open>1\<close>, \<open>False\<close> is \<open>0\<close>).\<close>

fun py_num :: "pyval \<Rightarrow> real option" where
  "py_num (PyBool b) = Some (if b then 1 else 0)"
| "py_num (PyInt i) = Some (of_int i)"
| "py_num (PyFloat x) = Some x"
| "py_num v = None"

text \<open>Python's \<open>==\<close>: numbers compare by value across \<open>bool\<close>, \<open>int\<close> and \<open>float\<close>.\<close>

fun py_eq :: "pyval \<Rightarrow> pyval \<Rightarrow> bool" where
  "py_eq PyNone b = (b = PyNone)"
| "py_eq PyNaN b = False"
| "py_eq (PyInf s) b = (b = PyInf s)"
| "py_eq a b = (case py_num b of Some y \<Rightarrow> py_num a = Some y | None \<Rightarrow> False)"

text \<open>A value on which \<open>int()\<close> does not raise.\<close>

definition convertible :: "pyval \<Rightarrow> bool" where
  "convertible v = (case py_int v of Inl e \<Rightarrow> False | Inr i \<Rightarrow> True)"

section \<open>CAN frame encoder (\<open>fmu_can_bridge.py\<close>, \<open>CANMessageEncoder\<close>)\<close>

text \<open>One entry of \<open>config['light_control']['signals']\<close>.\<close>

record signal_config =
  sig_byte :: nat
  sig_bit :: "nat option"
  sig_type :: "string option"
  sig_scale :: "real option"

text \<open>The default configuration of \<open>__init__\<close>, in the insertion order of the dict.\<close>

definition light_control_id :: int where
  "light_control_id = 0x100"

definition light_control_dlc :: int where
  "light_control_dlc = 8"

definition light_control_signals :: "(string \<times> signal_config) list" where
  "light_control_signals =
    [(''headlamp'', \<lparr>sig_byte = 0, sig_bit = Some 0, sig_type = Some ''bool'', sig_scale = None\<rparr>),
     (''tailLamp'', \<lparr>sig_byte = 0, sig_bit = Some 1, sig_type = Some ''bool'', sig_scale = None\<rparr>),
     (''brakeLamp'', \<lparr>sig_byte = 0, sig_bit = Some 2, sig_type = Some ''bool'', sig_scale = None\<rparr>),
     (''indicator_left'', \<lparr>sig_byte = 0, sig_bit = Some 3, sig_type = Some ''bool'', sig_scale = None\<rparr>),
     (''indicator_right'', \<lparr>sig_byte = 0, sig_bit = Some 4, sig_type = Some ''bool'', sig_scale = None\<rparr>),
     (''light_level'', \<lparr>sig_byte = 1, sig_bit = None, sig_type = Some ''uint8'', sig_scale = Some 2.55\<rparr>),
     (''vehicle_speed'', \<lparr>sig_byte = 2, sig_bit = None, sig_type = Some ''uint8'', sig_scale = None\<rparr>)]"

text \<open>
  The frame dictionary returned by \<open>encode\<close>.  The wall-clock \<open>timestamp\<close> entry is left
  out: it is read from the system clock when the input carries none.
\<close>

record can_frame =
  can_id :: int
  can_data :: "int list"
  dlc :: int
  sim_time :: pyval
  source :: string

text \<open>
  Item assignment on a \<open>bytearray\<close>: the index must exist and the value must be a byte.
\<close>

definition bytearray_set :: "int list \<Rightarrow> nat \<Rightarrow> int \<Rightarrow> py_error + int list" where
  "bytearray_set data i v =
    (if length data \<le> i then Inl IndexError
     else if v < 0 \<or> 255 < v then Inl ValueError
     else Inr (data[i := v]))"

text \<open>The first loop of \<open>encode\<close>: it sets one bit for every truthy boolean signal.\<close>

fun set_bool_signals ::
  "(string \<rightharpoonup> pyval) \<Rightarrow> (string \<times> signal_config) list \<Rightarrow> int list \<Rightarrow> py_error + int list"
where
  "set_bool_signals fmu_data [] data = Inr data"
| "set_bool_signals fmu_data ((signal_name, signal_config) # rest) data =
    (case fmu_data signal_name of
       None \<Rightarrow> set_bool_signals fmu_data rest data
     | Some v \<Rightarrow>
        if sig_type signal_config = Some ''bool'' then
          (case sig_bit signal_config of
             None \<Rightarrow> Inl KeyError
           | Some bit_pos \<Rightarrow>
              if truthy v then
                (if length data \<le> sig_byte signal_config then Inl IndexError
                 else
                   case bytearray_set data (sig_byte signal_config)
                          (data ! sig_byte signal_config OR push_bit bit_pos 1) of
                     Inl e \<Rightarrow> Inl e
                   | Inr data' \<Rightarrow> set_bool_signals fmu_data rest data')
              else set_bool_signals fmu_data rest data)
        else set_bool_signals fmu_data rest data)"

text \<open>\<open>light_level\<close> and \<open>vehicle_speed\<close>: converted, clamped to a byte, stored.\<close>

definition set_uint8 :: "(string \<rightharpoonup> pyval) \<Rightarrow> string \<Rightarrow> nat \<Rightarrow> int list \<Rightarrow> py_error + int list" where
  "set_uint8 fmu_data key pos data =
    (case fmu_data key of
       None \<Rightarrow> Inr data
     | Some v \<Rightarrow>
        (case py_int v of
           Inl e \<Rightarrow> Inl e
         | Inr val \<Rightarrow> bytearray_set data pos (max 0 (min 255 val))))"

text \<open>\<open>ambient\<close>: converted, then split into a high and a low byte by shifting and masking.\<close>

definition set_ambient :: "(string \<rightharpoonup> pyval) \<Rightarrow> int list \<Rightarrow> py_error + int list" where
  "set_ambient fmu_data data =
    (case fmu_data ''ambient'' of
       None \<Rightarrow> Inr data
     | Some v \<Rightarrow>
        (case py_int v of
           Inl e \<Rightarrow> Inl e
         | Inr ambient_val \<Rightarrow>
            (case bytearray_set data 3 (drop_bit 8 ambient_val AND 0xFF) of
               Inl e \<Rightarrow> Inl e
             | Inr data' \<Rightarrow> bytearray_set data' 4 (ambient_val AND 0xFF))))"

definition encode :: "(string \<rightharpoonup> pyval) \<Rightarrow> py_error + can_frame" where
  "encode fmu_data =
    (case set_bool_signals fmu_data light_control_signals (replicate 8 0) of
       Inl e \<Rightarrow> Inl e
     | Inr d0 \<Rightarrow>
    (case set_uint8 fmu_data ''light_level'' 1 d0 of
       Inl e \<Rightarrow> Inl e
     | Inr d1 \<Rightarrow>
    (case set_uint8 fmu_data ''vehicle_speed'' 2 d1 of
       Inl e \<Rightarrow> Inl e
     | Inr d2 \<Rightarrow>
    (case set_ambient fmu_data d2 of
       Inl e \<Rightarrow> Inl e
     | Inr d3 \<Rightarrow>
        Inr \<lparr>can_id = light_control_id,
             can_data = d3,
             dlc = light_control_dlc,
             sim_time = (case fmu_data ''simulation_time'' of None \<Rightarrow> PyInt 0 | Some t \<Rightarrow> t),
             source = ''autoLamp_fmu''\<rparr>))))"

section \<open>Simple zonal controller (\<open>zonal_controller_simple.py\<close>)\<close>

text \<open>
  \<open>decode_can_data\<close> fills a dictionary; the model keeps the entries in insertion order.
  The payload is the JSON list of integers as received.
\<close>

definition decode_can_data :: "int \<Rightarrow> int list \<Rightarrow> (string \<times> pyval) list" where
  "decode_can_data cid data =
    (if cid = 0x100 then
       (if length data > 0 then
          (let byte0 = data ! 0 in
            [(''headLamp'', PyBool (byte0 AND 0x01 \<noteq> 0)),
             (''tailLamp'', PyBool (byte0 AND 0x02 \<noteq> 0)),
             (''brakeLamp'', PyBool (byte0 AND 0x04 \<noteq> 0)),
             (''indicatorLeft'', PyBool (byte0 AND 0x08 \<noteq> 0)),
             (''indicatorRight'', PyBool (byte0 AND 0x10 \<noteq> 0))])
        else [])
       @ (if length data > 1 then [(''lightLevel'', PyInt (data ! 1))] else [])
       @ (if length data > 2 then [(''vehicleSpeed'', PyInt (data ! 2))] else [])
       @ (if length data > 4 then [(''ambient'', PyInt (push_bit 8 (data ! 3) OR data ! 4))] else [])
     else [])"

subsection \<open>Auxiliary notions for the encoder properties\<close>

definition flag :: "(string \<rightharpoonup> pyval) \<Rightarrow> string \<Rightarrow> bool" where
  "flag fmu_data key = (case fmu_data key of None \<Rightarrow> False | Some v \<Rightarrow> truthy v)"

definition bitval :: "bool \<Rightarrow> nat \<Rightarrow> int" where
  "bitval f k = (if f then push_bit k 1 else 0)"

definition bool_byte :: "(string \<rightharpoonup> pyval) \<Rightarrow> int" where
  "bool_byte fmu_data =
     bitval (flag fmu_data ''headlamp'') 0 OR bitval (flag fmu_data ''tailLamp'') 1 OR
     bitval (flag fmu_data ''brakeLamp'') 2 OR bitval (flag fmu_data ''indicator_left'') 3 OR
     bitval (flag fmu_data ''indicator_right'') 4"

definition int_at :: "(string \<rightharpoonup> pyval) \<Rightarrow> string \<Rightarrow> int" where
  "int_at fmu_data key =
    (case fmu_data key of None \<Rightarrow> 0
     | Some v \<Rightarrow> (case py_int v of Inl e \<Rightarrow> 0 | Inr i \<Rightarrow> i))"

definition convertible_at :: "(string \<rightharpoonup> pyval) \<Rightarrow> string \<Rightarrow> bool" where
  "convertible_at fmu_data key = (case fmu_data key of None \<Rightarrow> True | Some v \<Rightarrow> convertible v)"

definition clamp_byte :: "int \<Rightarrow> int" where
  "clamp_byte x = max 0 (min 255 x)"

definition signal_name_pairs :: "(string \<times> string) list" where
  "signal_name_pairs =
    [(''headlamp'', ''headLamp''), (''tailLamp'', ''tailLamp''), (''brakeLamp'', ''brakeLamp''),
     (''indicator_left'', ''indicatorLeft''), (''indicator_right'', ''indicatorRight''),
     (''light_level'', ''lightLevel''), (''vehicle_speed'', ''vehicleSpeed''),
     (''ambient'', ''ambient'')]"

definition bool_in_range :: "pyval \<Rightarrow> bool" where
  "bool_in_range v = py_eq (PyBool (truthy v)) v"

definition uint_in_range :: "int \<Rightarrow> pyval \<Rightarrow> bool" where
  "uint_in_range hi v =
    (case py_int v of Inl e \<Rightarrow> False | Inr i \<Rightarrow> 0 \<le> i \<and> i \<le> hi \<and> py_eq (PyInt i) v)"

definition declared_range :: "string \<Rightarrow> pyval \<Rightarrow> bool" where
  "declared_range key v =
    (if key = ''ambient'' then uint_in_range 65535 v
     else case map_of light_control_signals key of
            None \<Rightarrow> True
          | Some c \<Rightarrow> if sig_type c = Some ''bool'' then bool_in_range v else uint_in_range 255 v)"

definition within_declared_range :: "(string \<rightharpoonup> pyval) \<Rightarrow> bool" where
  "within_declared_range fmu_data =
    list_all (\<lambda>key. case fmu_data key of None \<Rightarrow> True | Some v \<Rightarrow> declared_range key v)
      (map fst signal_name_pairs)"

section \<open>Socket server (\<open>wsl2_socket_server.py\<close>)\<close>

subsection \<open>\<open>queue.Queue\<close>\<close>

text \<open>
  A FIFO queue with the bound given at construction; a bound of zero or less means no
  bound.  \<open>put_nowait\<close> raises \<open>Full\<close> on a full queue and \<open>get_nowait\<close> raises \<open>Empty\<close> on an
  empty one; \<open>get_nowait\<close> removes the element that was put first.
\<close>

record 'a py_queue =
  maxsize :: int
  queue_items :: "'a list"

definition put_nowait :: "'a py_queue \<Rightarrow> 'a \<Rightarrow> py_error + 'a py_queue" where
  "put_nowait q x =
    (if 0 < maxsize q \<and> maxsize q \<le> int (length (queue_items q)) then Inl QueueFull
     else Inr (q\<lparr>queue_items := queue_items q @ [x]\<rparr>))"

definition get_nowait :: "'a py_queue \<Rightarrow> py_error + ('a \<times> 'a py_queue)" where
  "get_nowait q =
    (case queue_items q of
       [] \<Rightarrow> Inl QueueEmpty
     | x # xs \<Rightarrow> Inr (x, q\<lparr>queue_items := xs\<rparr>))"

subsection \<open>\<open>CANForwarder\<close>\<close>

text \<open>
  The forwarder owns the publishing socket and the backup queue.  \<open>published\<close> records
  what has been handed to the socket, oldest first.
\<close>

record 'a forwarder =
  published :: "'a list"
  message_queue :: "'a py_queue"

definition new_forwarder :: "'a forwarder" where
  "new_forwarder = \<lparr>published = [], message_queue = \<lparr>maxsize = 1000, queue_items = []\<rparr>\<rparr>"

text \<open>
  \<open>forward_message\<close>.  The flag \<open>sent\<close> tells whether \<open>send_json\<close> returned; when it raises,
  the outer handler logs the error and the queue is not touched.  On a full queue the
  oldest element is taken out and the put is tried again; the bare \<open>except\<close> around that
  second attempt swallows every failure.
\<close>

definition forward_message :: "bool \<Rightarrow> 'a forwarder \<Rightarrow> 'a \<Rightarrow> 'a forwarder" where
  "forward_message sent fw frame =
    (if \<not> sent then fw
     else
       let fw1 = fw\<lparr>published := published fw @ [frame]\<rparr> in
       (case put_nowait (message_queue fw1) frame of
          Inr q \<Rightarrow> fw1\<lparr>message_queue := q\<rparr>
        | Inl full \<Rightarrow>
           (case get_nowait (message_queue fw1) of
              Inl e \<Rightarrow> fw1
            | Inr (oldest, q1) \<Rightarrow>
               (case put_nowait q1 frame of
                  Inl e \<Rightarrow> fw1\<lparr>message_queue := q1\<rparr>
                | Inr q2 \<Rightarrow> fw1\<lparr>message_queue := q2\<rparr>))))"

subsection \<open>\<open>CANMessageProcessor\<close>\<close>

text \<open>
  A received message after JSON parsing.  Each of the three required fields may be
  missing; a field that is present has the type the sender gives it (an integer, a list
  of integers, an integer).
\<close>

record message =
  msg_can_id :: "int option"
  msg_can_data :: "int list option"
  msg_dlc :: "int option"

record processor_stats =
  total_received :: nat
  total_sent :: nat
  invalid_ids :: nat
  invalid_data :: nat
  by_id :: "int \<rightharpoonup> nat"

definition new_processor_stats :: processor_stats where
  "new_processor_stats =
    \<lparr>total_received = 0, total_sent = 0, invalid_ids = 0, invalid_data = 0, by_id = Map.empty\<rparr>"

text \<open>The error lines that \<open>validate_message\<close> writes to the log.\<close>

datatype log_error =
  Missing_required_field string
| Invalid_CAN_ID int
| Invalid_DLC int
| Invalid_data_length nat

text \<open>
  \<open>validate_message\<close> returns the verdict; the model also returns the error line it logs
  and the statistics as it leaves them.
\<close>

definition validate_message ::
  "processor_stats \<Rightarrow> message \<Rightarrow> bool \<times> log_error list \<times> processor_stats" where
  "validate_message st data =
    (case msg_can_id data of
       None \<Rightarrow> (False, [Missing_required_field ''can_id''], st)
     | Some cid \<Rightarrow>
    (case msg_can_data data of
       None \<Rightarrow> (False, [Missing_required_field ''can_data''], st)
     | Some cdata \<Rightarrow>
    (case msg_dlc data of
       None \<Rightarrow> (False, [Missing_required_field ''dlc''], st)
     | Some d \<Rightarrow>
        if \<not> (0x000 \<le> cid \<and> cid \<le> 0x7FF) then
          (False, [Invalid_CAN_ID cid], st\<lparr>invalid_ids := invalid_ids st + 1\<rparr>)
        else if \<not> (0 \<le> d \<and> d \<le> 8) then
          (False, [Invalid_DLC d], st)
        else if length cdata \<noteq> 8 then
          (False, [Invalid_data_length (length cdata)], st\<lparr>invalid_data := invalid_data st + 1\<rparr>)
        else (True, [], st))))"

definition valid_ids :: "int \<rightharpoonup> string" where
  "valid_ids =
    [0x100 \<mapsto> ''LIGHT_CONTROL'', 0x101 \<mapsto> ''DOOR_STATUS'', 0x102 \<mapsto> ''WINDOW_STATUS'',
     0x200 \<mapsto> ''DIAGNOSTIC'', 0x7E0 \<mapsto> ''UDS_TX'', 0x7E8 \<mapsto> ''UDS_RX'']"

text \<open>
  The enriched message: the received fields and the metadata that \<open>process_message\<close>
  adds (the two clock readings are left out).  A message that passed validation has an
  identifier, so the branch for a missing one in the model below is never taken.
\<close>

record enriched =
  received :: message
  direction :: string
  enr_source :: string
  destination :: string
  validated :: bool
  can_id_description :: "string option"

definition process_message ::
  "processor_stats \<Rightarrow> message \<Rightarrow> enriched option \<times> log_error list \<times> processor_stats" where
  "process_message st data =
    (let st1 = st\<lparr>total_received := total_received st + 1\<rparr> in
     case validate_message st1 data of
       (False, logged, st2) \<Rightarrow> (None, logged, st2)
     | (True, logged, st2) \<Rightarrow>
        (case msg_can_id data of
           None \<Rightarrow> (None, logged, st2)
         | Some cid \<Rightarrow>
            (Some \<lparr>received = data, direction = ''RX'', enr_source = ''vECU'',
                   destination = ''ZonalController'', validated = True,
                   can_id_description = valid_ids cid\<rparr>,
             logged,
             st2\<lparr>by_id := (by_id st2)(cid \<mapsto> (case by_id st2 cid of None \<Rightarrow> 0 | Some n \<Rightarrow> n) + 1)\<rparr>)))"

subsection \<open>\<open>EnhancedWSL2SocketServer\<close>\<close>

text \<open>
  The part of the server state that message handling reads and writes.  \<open>can_bus_sent\<close>
  lists the frames handed to the CAN bus as (identifier, data bytes, dlc).
\<close>

record server =
  processor :: processor_stats
  srv_forwarder :: "enriched forwarder"
  client_connected :: bool
  messages_received :: nat
  messages_forwarded :: nat
  messages_sent_to_can :: nat
  errors :: nat
  can_bus_sent :: "(int \<times> int list \<times> int) list"
  error_log :: "log_error list"

text \<open>
  What the two outside parties do with one message: whether the CAN bus accepts the frame
  and whether the publishing socket accepts the message.
\<close>

record environment =
  bus_accepts :: bool
  socket_accepts :: bool

text \<open>\<open>bytes(xs)\<close> on a list of integers: every element must be a byte.\<close>

definition is_byte :: "int \<Rightarrow> bool" where
  "is_byte b = (0 \<le> b \<and> b < 256)"

definition py_bytes :: "int list \<Rightarrow> py_error + int list" where
  "py_bytes xs = (if list_all is_byte xs then Inr xs else Inl ValueError)"

text \<open>
  The slice \<open>xs[:n]\<close> for an integer \<open>n\<close>; a negative \<open>n\<close> counts from the end.
\<close>

definition py_slice_to :: "'a list \<Rightarrow> int \<Rightarrow> 'a list" where
  "py_slice_to xs n = (if 0 \<le> n then take (nat n) xs else take (length xs - nat (- n)) xs)"

text \<open>
  \<open>send_to_can_bus\<close>: every failure inside is caught, logged and counted in \<open>errors\<close>.
  The line it logs after every fiftieth frame is left out.
\<close>

definition send_to_can_bus :: "environment \<Rightarrow> server \<Rightarrow> enriched \<Rightarrow> server" where
  "send_to_can_bus env s data =
    (case (msg_can_id (received data), msg_can_data (received data), msg_dlc (received data)) of
       (Some cid, Some cdata, Some d) \<Rightarrow>
         (case py_bytes (py_slice_to cdata d) of
            Inl e \<Rightarrow> s\<lparr>errors := errors s + 1\<rparr>
          | Inr can_data_bytes \<Rightarrow>
             if bus_accepts env then
               s\<lparr>can_bus_sent := can_bus_sent s @ [(cid, can_data_bytes, d)],
                 messages_sent_to_can := messages_sent_to_can s + 1\<rparr>
             else s\<lparr>errors := errors s + 1\<rparr>)
     | _ \<Rightarrow> s\<lparr>errors := errors s + 1\<rparr>)"

text \<open>
  \<open>process_incoming_message\<close>.  The argument is the result of \<open>json.loads\<close>: \<open>None\<close> stands
  for a \<open>JSONDecodeError\<close>.  No exception leaves the function, so the read loop of
  \<open>handle_client\<close> goes on with the next message and \<open>client_connected\<close> is not written.
\<close>

definition process_incoming_message :: "environment \<Rightarrow> server \<Rightarrow> message option \<Rightarrow> server" where
  "process_incoming_message env s parsed =
    (case parsed of
       None \<Rightarrow> s\<lparr>errors := errors s + 1\<rparr>
     | Some data \<Rightarrow>
        (let s1 = s\<lparr>messages_received := messages_received s + 1\<rparr> in
         case process_message (processor s1) data of
           (None, logged, st) \<Rightarrow> s1\<lparr>processor := st, error_log := error_log s1 @ logged\<rparr>
         | (Some processed_data, logged, st) \<Rightarrow>
            (let s2 = send_to_can_bus env
                        (s1\<lparr>processor := st, error_log := error_log s1 @ logged\<rparr>) processed_data;
                 s3 = s2\<lparr>srv_forwarder :=
                          forward_message (socket_accepts env) (srv_forwarder s2) processed_data\<rparr>
             in s3\<lparr>messages_forwarded := messages_forwarded s3 + 1\<rparr>)))"

text \<open>The content of the backup queue, oldest frame first.\<close>

definition backup_buffer :: "'a forwarder \<Rightarrow> 'a list" where
  "backup_buffer fw = queue_items (message_queue fw)"

section \<open>Zonal controller (\<open>zonal_controller.py\<close>)\<close>

subsection \<open>Arithmetic on Python numbers\<close>

text \<open>
  \<open>a * b\<close> and \<open>a + b\<close>.  Two integers (booleans count as integers) give an integer;
  as soon as a float takes part the result is a float.  Finite floats are computed with
  as real numbers, without rounding; the bool of \<open>PyInf\<close> is the sign bit.
\<close>

fun py_mul :: "pyval \<Rightarrow> pyval \<Rightarrow> py_error + pyval" where
  "py_mul PyNone b = Inl TypeError"
| "py_mul a PyNone = Inl TypeError"
| "py_mul PyNaN b = Inr PyNaN"
| "py_mul a PyNaN = Inr PyNaN"
| "py_mul (PyInf s) (PyInf t) = Inr (PyInf (s \<noteq> t))"
| "py_mul (PyInf s) b =
    (case py_num b of None \<Rightarrow> Inl TypeError
     | Some y \<Rightarrow> Inr (if y = 0 then PyNaN else PyInf (s \<noteq> (y < 0))))"
| "py_mul a (PyInf t) =
    (case py_num a of None \<Rightarrow> Inl TypeError
     | Some x \<Rightarrow> Inr (if x = 0 then PyNaN else PyInf (t \<noteq> (x < 0))))"
| "py_mul (PyFloat x) b =
    (case py_num b of None \<Rightarrow> Inl TypeError | Some y \<Rightarrow> Inr (PyFloat (x * y)))"
| "py_mul a (PyFloat y) =
    (case py_num a of None \<Rightarrow> Inl TypeError | Some x \<Rightarrow> Inr (PyFloat (x * y)))"
| "py_mul a b =
    (case (py_int a, py_int b) of
       (Inr i, Inr j) \<Rightarrow> Inr (PyInt (i * j))
     | _ \<Rightarrow> Inl TypeError)"

fun py_add :: "pyval \<Rightarrow> pyval \<Rightarrow> py_error + pyval" where
  "py_add PyNone b = Inl TypeError"
| "py_add a PyNone = Inl TypeError"
| "py_add PyNaN b = Inr PyNaN"
| "py_add a PyNaN = Inr PyNaN"
| "py_add (PyInf s) (PyInf t) = Inr (if s = t then PyInf s else PyNaN)"
| "py_add (PyInf s) b = Inr (PyInf s)"
| "py_add a (PyInf t) = Inr (PyInf t)"
| "py_add (PyFloat x) b =
    (case py_num b of None \<Rightarrow> Inl TypeError | Some y \<Rightarrow> Inr (PyFloat (x + y)))"
| "py_add a (PyFloat y) =
    (case py_num a of None \<Rightarrow> Inl TypeError | Some x \<Rightarrow> Inr (PyFloat (x + y)))"
| "py_add a b =
    (case (py_int a, py_int b) of
       (Inr i, Inr j) \<Rightarrow> Inr (PyInt (i + j))
     | _ \<Rightarrow> Inl TypeError)"

subsection \<open>Data classes\<close>

record CANSignal =
  cs_name :: string
  cs_value :: pyval
  cs_unit :: string
  cs_min_value :: real
  cs_max_value :: real
  cs_description :: string

text \<open>\<open>CANMessage\<close>, without the field \<open>can_id_hex\<close> (the identifier printed in hexadecimal).\<close>

record CANMessage =
  cm_timestamp :: real
  cm_can_id :: int
  cm_signals :: "CANSignal list"
  cm_raw_data :: "int list"
  cm_dlc :: nat
  cm_can_id_description :: string
  cm_direction :: string
  cm_source :: string

record VSSSignal =
  vs_path :: string
  vs_value :: pyval
  vs_timestamp :: real
  vs_data_type :: string
  vs_min_value :: real
  vs_max_value :: real
  vs_unit :: string
  vs_description :: string

subsection \<open>The signal database\<close>

text \<open>
  A signal and a message definition with the attributes that \<open>create_virtual_database\<close>
  sets.  \<open>ds_start\<close> is the position of the least significant bit of the signal.
\<close>

record dbc_signal =
  ds_name :: string
  ds_start :: nat
  ds_length :: nat
  is_signed :: bool
  ds_scale :: int
  ds_offset :: int
  minimum :: "real option"
  maximum :: "real option"
  ds_unit :: "string option"
  ds_comment :: "string option"
  receivers :: "string list"

record dbc_message =
  frame_id :: int
  dm_name :: string
  dm_length :: nat
  dm_signals :: "dbc_signal list"

definition lamp_signal :: "string \<Rightarrow> nat \<Rightarrow> dbc_signal" where
  "lamp_signal n start =
    \<lparr>ds_name = n, ds_start = start, ds_length = 1, is_signed = False, ds_scale = 1,
     ds_offset = 0, minimum = Some 0, maximum = Some 1, ds_unit = Some '''',
     ds_comment = None, receivers = [''ZC'']\<rparr>"

definition light_control_msg :: dbc_message where
  "light_control_msg =
    \<lparr>frame_id = 0x100, dm_name = ''LIGHT_CONTROL'', dm_length = 8,
     dm_signals =
      [lamp_signal ''headLamp'' 0,
       lamp_signal ''tailLamp'' 1,
       lamp_signal ''brakeLamp'' 2,
       lamp_signal ''indicatorLeft'' 3,
       lamp_signal ''indicatorRight'' 4,
       \<lparr>ds_name = ''lightLevel'', ds_start = 8, ds_length = 8, is_signed = False, ds_scale = 1,
        ds_offset = 0, minimum = Some 0, maximum = Some 255, ds_unit = Some ''%'',
        ds_comment = None, receivers = [''ZC'']\<rparr>,
       \<lparr>ds_name = ''vehicleSpeed'', ds_start = 16, ds_length = 8, is_signed = False, ds_scale = 1,
        ds_offset = 0, minimum = Some 0, maximum = Some 255, ds_unit = Some ''km/h'',
        ds_comment = None, receivers = [''ZC'']\<rparr>]\<rparr>"

text \<open>\<open>create_virtual_database\<close>: an empty database to which the one message is added.\<close>

definition create_virtual_database :: "dbc_message list" where
  "create_virtual_database = [] @ [light_control_msg]"

subsection \<open>Table-driven decoding\<close>

text \<open>
  Modelled from the spec: the table-driven bit-layout decode of section 4.1, which the
  source obtains from the external DBC library (\<open>self.db.decode_message\<close>) and which is
  not part of the repository.  Bits are numbered least significant first within each
  byte, so bit \<open>k\<close> of the frame is bit \<open>k mod 8\<close> of byte \<open>k div 8\<close>.  For each signal whose
  bit range lies fully within \<open>declaredLength * 8\<close> bits the bits are extracted and
  \<open>physical = raw * scale + offset\<close> is reported; the other signals are left out.
\<close>

definition frame_bits :: "int list \<Rightarrow> int" where
  "frame_bits payload = foldr (\<lambda>b acc. b + 256 * acc) payload 0"

definition raw_value :: "dbc_signal \<Rightarrow> int list \<Rightarrow> int" where
  "raw_value s payload =
    (let u = take_bit (ds_length s) (drop_bit (ds_start s) (frame_bits payload))
     in if is_signed s then signed_take_bit (ds_length s - 1) u else u)"

definition within_declared_length :: "nat \<Rightarrow> dbc_signal \<Rightarrow> bool" where
  "within_declared_length declaredLength s = (ds_start s + ds_length s \<le> declaredLength * 8)"

definition layout_decode :: "dbc_message \<Rightarrow> int list \<Rightarrow> nat \<Rightarrow> (string \<times> pyval) list" where
  "layout_decode layout payload declaredLength =
    map (\<lambda>s. (ds_name s, PyInt (raw_value s payload * ds_scale s + ds_offset s)))
      (filter (within_declared_length declaredLength) (dm_signals layout))"

subsection \<open>\<open>DBCManager\<close>\<close>

text \<open>
  \<open>manual_decode\<close>, the hand-written decoder for identifier \<open>0x100\<close>.  Its third argument,
  the message definition, is not used.
\<close>

definition manual_decode :: "int \<Rightarrow> int list \<Rightarrow> dbc_message \<Rightarrow> (string \<times> pyval) list" where
  "manual_decode cid data msg_def =
    (if cid = 0x100 then
       (if length data \<ge> 1 then
          (let byte0 = data ! 0 in
            [(''headLamp'', PyBool (byte0 AND 0x01 \<noteq> 0)),
             (''tailLamp'', PyBool (byte0 AND 0x02 \<noteq> 0)),
             (''brakeLamp'', PyBool (byte0 AND 0x04 \<noteq> 0)),
             (''indicatorLeft'', PyBool (byte0 AND 0x08 \<noteq> 0)),
             (''indicatorRight'', PyBool (byte0 AND 0x10 \<noteq> 0))])
        else [])
       @ (if length data \<ge> 2 then [(''lightLevel'', PyInt (data ! 1))] else [])
       @ (if length data \<ge> 3 then [(''vehicleSpeed'', PyInt (data ! 2))] else [])
     else [])"

text \<open>The \<open>CANSignal\<close> built for one decoded value, if the message defines the signal.\<close>

definition make_signal :: "dbc_message \<Rightarrow> string \<times> pyval \<Rightarrow> CANSignal list" where
  "make_signal msg_def entry =
    (case find (\<lambda>s. ds_name s = fst entry) (dm_signals msg_def) of
       None \<Rightarrow> []
     | Some signal_def \<Rightarrow>
        [\<lparr>cs_name = fst entry,
          cs_value = snd entry,
          cs_unit = (case ds_unit signal_def of None \<Rightarrow> '''' | Some u \<Rightarrow> u),
          cs_min_value = (case minimum signal_def of None \<Rightarrow> 0 | Some m \<Rightarrow> m),
          cs_max_value = (case maximum signal_def of None \<Rightarrow> 0 | Some m \<Rightarrow> m),
          cs_description = (case ds_comment signal_def of None \<Rightarrow> '''' | Some c \<Rightarrow> c)\<rparr>])"

text \<open>
  \<open>decode_message\<close>.  \<open>db\<close> is the list of message definitions, \<open>now\<close> the clock reading
  and \<open>standard_decode_raises\<close> tells whether the library call raised, in which case the
  manual decoder takes over.  Data shorter than eight bytes is filled up with zero bytes
  first; everything after that, the recorded \<open>dlc\<close> included, sees the filled-up data.
  The library is given the filled-up data, and the bytes it is given are the declared
  length of its decode.  The cache of message definitions only remembers the result of
  the search.
\<close>

definition decode_message ::
  "dbc_message list \<Rightarrow> real \<Rightarrow> bool \<Rightarrow> int \<Rightarrow> int list \<Rightarrow> CANMessage option" where
  "decode_message db now standard_decode_raises cid data0 =
    (let data = (if length data0 < 8 then data0 @ replicate (8 - length data0) 0 else data0) in
     case find (\<lambda>msg. frame_id msg = cid) db of
       None \<Rightarrow> None
     | Some msg_def \<Rightarrow>
        (let decoded_signals =
               (if standard_decode_raises then manual_decode cid data msg_def
                else layout_decode msg_def data (length data));
             signals = concat (map (make_signal msg_def) decoded_signals)
         in Some \<lparr>cm_timestamp = now,
                  cm_can_id = cid,
                  cm_signals = signals,
                  cm_raw_data = data,
                  cm_dlc = length data,
                  cm_can_id_description = dm_name msg_def,
                  cm_direction = ''RX'',
                  cm_source = ''CAN_Bus''\<rparr>))"

subsection \<open>\<open>VSSMapper\<close>\<close>

record conversion =
  conv_scale :: "pyval option"
  conv_offset :: "pyval option"

record vss_config =
  vss_path :: string
  data_type :: "string option"
  vc_description :: "string option"
  vc_conversion :: "conversion option"
  vc_unit :: "string option"

definition boolean_config :: "string \<Rightarrow> string \<Rightarrow> vss_config" where
  "boolean_config p d =
    \<lparr>vss_path = p, data_type = Some ''boolean'', vc_description = Some d,
     vc_conversion = None, vc_unit = None\<rparr>"

definition unit_conversion :: conversion where
  "unit_conversion = \<lparr>conv_scale = Some (PyFloat 1.0), conv_offset = Some (PyFloat 0.0)\<rparr>"

text \<open>The built-in table of \<open>load_mappings\<close>.\<close>

definition default_mappings :: "int \<rightharpoonup> (string \<rightharpoonup> vss_config)" where
  "default_mappings =
    [0x100 \<mapsto>
      [''headLamp'' \<mapsto> boolean_config ''Vehicle.Body.Lights.IsHighBeamOn'' ''High beam headlight status'',
       ''tailLamp'' \<mapsto> boolean_config ''Vehicle.Body.Lights.IsTailLightOn'' ''Tail light status'',
       ''brakeLamp'' \<mapsto> boolean_config ''Vehicle.Body.Lights.IsBrakeLightOn'' ''Brake light status'',
       ''indicatorLeft'' \<mapsto>
          boolean_config ''Vehicle.Body.Lights.IsLeftIndicatorOn'' ''Left turn indicator status'',
       ''indicatorRight'' \<mapsto>
          boolean_config ''Vehicle.Body.Lights.IsRightIndicatorOn'' ''Right turn indicator status'',
       ''lightLevel'' \<mapsto>
          \<lparr>vss_path = ''Vehicle.Body.Lights.AmbientLight'', data_type = Some ''uint8'',
           vc_description = Some ''Ambient light level'',
           vc_conversion = Some unit_conversion, vc_unit = None\<rparr>,
       ''vehicleSpeed'' \<mapsto>
          \<lparr>vss_path = ''Vehicle.Speed'', data_type = Some ''uint8'',
           vc_description = Some ''Vehicle speed'',
           vc_conversion = Some unit_conversion, vc_unit = Some ''km/h''\<rparr>]]"

text \<open>
  \<open>load_mappings\<close>: the entries of a mapping file, when one could be read and is not empty,
  replace the built-in entries of the same identifier.
\<close>

definition load_mappings ::
  "(int \<rightharpoonup> (string \<rightharpoonup> vss_config)) option \<Rightarrow> (int \<rightharpoonup> (string \<rightharpoonup> vss_config))" where
  "load_mappings file_mappings =
    (case file_mappings of None \<Rightarrow> default_mappings | Some fm \<Rightarrow> default_mappings ++ fm)"

text \<open>
  The conversion is applied when the entry has one that is not an empty dictionary;
  a missing \<open>scale\<close> counts as \<open>1.0\<close> and a missing \<open>offset\<close> as \<open>0.0\<close>.
\<close>

definition convert_value :: "vss_config \<Rightarrow> pyval \<Rightarrow> py_error + pyval" where
  "convert_value vss_cfg v =
    (case vc_conversion vss_cfg of
       None \<Rightarrow> Inr v
     | Some conv \<Rightarrow>
        if conv_scale conv = None \<and> conv_offset conv = None then Inr v
        else
          (case py_mul v (case conv_scale conv of None \<Rightarrow> PyFloat 1.0 | Some s \<Rightarrow> s) of
             Inl e \<Rightarrow> Inl e
           | Inr scaled \<Rightarrow>
              py_add scaled (case conv_offset conv of None \<Rightarrow> PyFloat 0.0 | Some off \<Rightarrow> off)))"

text \<open>The loop of \<open>map_can_to_vss\<close> over the signals of the message.\<close>

fun map_signals ::
  "(string \<rightharpoonup> vss_config) \<Rightarrow> real \<Rightarrow> CANSignal list \<Rightarrow> py_error + VSSSignal list" where
  "map_signals mapping ts [] = Inr []"
| "map_signals mapping ts (can_signal # rest) =
    (case mapping (cs_name can_signal) of
       None \<Rightarrow> map_signals mapping ts rest
     | Some vss_cfg \<Rightarrow>
        (case convert_value vss_cfg (cs_value can_signal) of
           Inl e \<Rightarrow> Inl e
         | Inr v \<Rightarrow>
            (case map_signals mapping ts rest of
               Inl e \<Rightarrow> Inl e
             | Inr vss_signals \<Rightarrow>
                Inr (\<lparr>vs_path = vss_path vss_cfg,
                      vs_value = v,
                      vs_timestamp = ts,
                      vs_data_type = (case data_type vss_cfg of None \<Rightarrow> ''unknown'' | Some t \<Rightarrow> t),
                      vs_min_value = cs_min_value can_signal,
                      vs_max_value = cs_max_value can_signal,
                      vs_unit = (if cs_unit can_signal \<noteq> '''' then cs_unit can_signal
                                 else case vc_unit vss_cfg of None \<Rightarrow> '''' | Some u \<Rightarrow> u),
                      vs_description =
                        (case vc_description vss_cfg of None \<Rightarrow> '''' | Some d \<Rightarrow> d)\<rparr>
                     # vss_signals))))"

definition map_can_to_vss ::
  "(int \<rightharpoonup> (string \<rightharpoonup> vss_config)) \<Rightarrow> CANMessage \<Rightarrow> py_error + VSSSignal list" where
  "map_can_to_vss mappings can_msg =
    (case mappings (cm_can_id can_msg) of
       None \<Rightarrow> Inr []
     | Some mapping \<Rightarrow> map_signals mapping (cm_timestamp can_msg) (cm_signals can_msg))"

section \<open>Simple zonal controller: mapping and message handling\<close>

text \<open>One entry of the list returned by \<open>map_to_vss\<close>, without its wall-clock timestamp.\<close>

record vss_entry =
  ve_path :: string
  ve_value :: pyval
  ve_type :: string

definition map_to_vss :: "int \<Rightarrow> (string \<times> pyval) list \<Rightarrow> vss_entry list" where
  "map_to_vss cid decoded_data =
    (if cid = 0x100 then
       (case map_of decoded_data ''headLamp'' of
          None \<Rightarrow> []
        | Some v \<Rightarrow> [\<lparr>ve_path = ''Vehicle.Body.Lights.IsHighBeamOn'', ve_value = v,
                       ve_type = ''boolean''\<rparr>])
       @ (case map_of decoded_data ''tailLamp'' of
            None \<Rightarrow> []
          | Some v \<Rightarrow> [\<lparr>ve_path = ''Vehicle.Body.Lights.IsTailLightOn'', ve_value = v,
                         ve_type = ''boolean''\<rparr>])
       @ (case map_of decoded_data ''lightLevel'' of
            None \<Rightarrow> []
          | Some v \<Rightarrow> [\<lparr>ve_path = ''Vehicle.Body.Lights.AmbientLight'', ve_value = v,
                         ve_type = ''uint8''\<rparr>])
       @ (case map_of decoded_data ''vehicleSpeed'' of
            None \<Rightarrow> []
          | Some v \<Rightarrow> [\<lparr>ve_path = ''Vehicle.Speed'', ve_value = v, ve_type = ''uint8''\<rparr>])
     else [])"

record simple_stats =
  ss_messages_received :: nat
  ss_errors :: nat

text \<open>
  \<open>SimpleZonalController.process_message\<close>.  The function returns nothing; the model
  returns the statistics and, when the message gets past the guard, what was decoded and
  mapped (which the source only logs).  \<open>can_id\<close> is read with \<open>data.get('can_id')\<close> and
  \<open>can_data\<close> with \<open>data.get('can_data', [])\<close>; the guard tests their truth values, so an
  identifier of zero and an empty list count as missing.
\<close>

definition simple_process_message ::
  "simple_stats \<Rightarrow> message \<Rightarrow>
     simple_stats \<times> ((string \<times> pyval) list \<times> vss_entry list) option" where
  "simple_process_message st data =
    (let st1 = st\<lparr>ss_messages_received := ss_messages_received st + 1\<rparr>;
         cid = msg_can_id data;
         cdata = (case msg_can_data data of None \<Rightarrow> [] | Some xs \<Rightarrow> xs)
     in
       if \<not> (case cid of None \<Rightarrow> False | Some i \<Rightarrow> i \<noteq> 0) \<or> \<not> (cdata \<noteq> []) then (st1, None)
       else
         (case cid of
            None \<Rightarrow> (st1, None)
          | Some i \<Rightarrow>
             (let decoded = decode_can_data i cdata;
                  vss_signals = map_to_vss i decoded
              in (st1, Some (decoded, vss_signals)))))"

section \<open>Notions used to state the properties\<close>

text \<open>
  The four validation rules in the words of the specification, in their order, and the
  class of the first rule that fails.
\<close>

datatype failure_class =
  Missing_field | Identifier_out_of_range | Declared_length_out_of_range | Payload_length_not_8

definition required_fields_present :: "message \<Rightarrow> bool" where
  "required_fields_present e =
    (msg_can_id e \<noteq> None \<and> msg_can_data e \<noteq> None \<and> msg_dlc e \<noteq> None)"

definition identifier_in_range :: "message \<Rightarrow> bool" where
  "identifier_in_range e = (case msg_can_id e of None \<Rightarrow> False | Some i \<Rightarrow> 0x000 \<le> i \<and> i \<le> 0x7FF)"

definition declared_length_in_range :: "message \<Rightarrow> bool" where
  "declared_length_in_range e = (case msg_dlc e of None \<Rightarrow> False | Some d \<Rightarrow> 0 \<le> d \<and> d \<le> 8)"

definition payload_length_is_8 :: "message \<Rightarrow> bool" where
  "payload_length_is_8 e = (case msg_can_data e of None \<Rightarrow> False | Some p \<Rightarrow> length p = 8)"

definition spec_validate :: "message \<Rightarrow> failure_class option" where
  "spec_validate e =
    (if \<not> required_fields_present e then Some Missing_field
     else if \<not> identifier_in_range e then Some Identifier_out_of_range
     else if \<not> declared_length_in_range e then Some Declared_length_out_of_range
     else if \<not> payload_length_is_8 e then Some Payload_length_not_8
     else None)"

fun class_of :: "log_error \<Rightarrow> failure_class" where
  "class_of (Missing_required_field f) = Missing_field"
| "class_of (Invalid_CAN_ID i) = Identifier_out_of_range"
| "class_of (Invalid_DLC d) = Declared_length_out_of_range"
| "class_of (Invalid_data_length n) = Payload_length_not_8"

text \<open>Two decoded dictionaries with the same keys in the same order and equal values.\<close>

definition same_signals :: "(string \<times> pyval) list \<Rightarrow> (string \<times> pyval) list \<Rightarrow> bool" where
  "same_signals xs ys = list_all2 (\<lambda>x y. fst x = fst y \<and> py_eq (snd x) (snd y)) xs ys"

text \<open>The value a decoded message reports for a signal name.\<close>

definition signal_value :: "CANMessage \<Rightarrow> string \<Rightarrow> pyval option" where
  "signal_value m n = map_option cs_value (find (\<lambda>s. cs_name s = n) (cm_signals m))"

definition new_server :: server where
  "new_server =
    \<lparr>processor = new_processor_stats, srv_forwarder = new_forwarder, client_connected = True,
     messages_received = 0, messages_forwarded = 0, messages_sent_to_can = 0, errors = 0,
     can_bus_sent = [], error_log = []\<rparr>"

text \<open>
  The signals of a decoded light-control message, given the first three payload bytes:
  the manual decoder reports the lamps as booleans, the table-driven one as 0 or 1.
\<close>

definition lamp_value :: "bool \<Rightarrow> int \<Rightarrow> nat \<Rightarrow> pyval" where
  "lamp_value manual b k = (if manual then PyBool (bit b k) else PyInt (if bit b k then 1 else 0))"

definition can_signal :: "string \<Rightarrow> pyval \<Rightarrow> string \<Rightarrow> real \<Rightarrow> CANSignal" where
  "can_signal n v u hi =
    \<lparr>cs_name = n, cs_value = v, cs_unit = u, cs_min_value = 0, cs_max_value = hi,
     cs_description = ''''\<rparr>"

definition light_control_values :: "bool \<Rightarrow> int \<Rightarrow> int \<Rightarrow> int \<Rightarrow> CANSignal list" where
  "light_control_values manual b0 b1 b2 =
    [can_signal ''headLamp'' (lamp_value manual b0 0) '''' 1,
     can_signal ''tailLamp'' (lamp_value manual b0 1) '''' 1,
     can_signal ''brakeLamp'' (lamp_value manual b0 2) '''' 1,
     can_signal ''indicatorLeft'' (lamp_value manual b0 3) '''' 1,
     can_signal ''indicatorRight'' (lamp_value manual b0 4) '''' 1,
     can_signal ''lightLevel'' (PyInt b1) ''%'' 255,
     can_signal ''vehicleSpeed'' (PyInt b2) ''km/h'' 255]"

text \<open>Whether the mapping table has an entry for a signal of a frame with this identifier.\<close>

definition has_mapping :: "(int \<rightharpoonup> (string \<rightharpoonup> vss_config)) \<Rightarrow> int \<Rightarrow> CANSignal \<Rightarrow> bool" where
  "has_mapping mappings cid s =
    (case mappings cid of None \<Rightarrow> False | Some mapping \<Rightarrow> mapping (cs_name s) \<noteq> None)"

text \<open>A decoded message that carries the given signals.\<close>

definition decoded_msg :: "real \<Rightarrow> int \<Rightarrow> CANSignal list \<Rightarrow> CANMessage" where
  "decoded_msg ts cid sigs =
    \<lparr>cm_timestamp = ts, cm_can_id = cid, cm_signals = sigs, cm_raw_data = [], cm_dlc = 8,
     cm_can_id_description = '''', cm_direction = ''RX'', cm_source = ''CAN_Bus''\<rparr>"

section \<open>Properties of the encoder and the simple decoder\<close>

lemma bitval_nonneg: "0 \<le> bitval f k"
  by (simp add: bitval_def)

lemma bitval_less: "k < 8 \<Longrightarrow> bitval f k < 256"
proof -
  assume "k < 8"
  then have "(2::int) ^ k < 2 ^ 8" by (intro power_strict_increasing) simp_all
  then show ?thesis by (simp add: bitval_def)
qed

lemma byte_or:
  fixes a b :: int
  assumes "0 \<le> a" "a < 256" "0 \<le> b" "b < 256"
  shows "0 \<le> (a OR b)" and "(a OR b) < 256" and "\<not> 255 < (a OR b)"
proof -
  show "0 \<le> (a OR b)" using assms by simp
  have "a OR b < 2 ^ 8" using assms by (intro OR_upper) simp_all
  then show "(a OR b) < 256" by simp
  then show "\<not> 255 < (a OR b)" by simp
qed

lemma set_bool_step:
  assumes "sig_type c = Some ''bool''" "sig_bit c = Some k" "sig_byte c = 0"
    and "0 \<le> b" "b < 256" "k < 8"
  shows "set_bool_signals fmu_data ((n, c) # rest) (b # bs) =
         set_bool_signals fmu_data rest ((b OR bitval (flag fmu_data n) k) # bs)"
proof (cases "fmu_data n")
  case None
  then show ?thesis by (simp add: flag_def bitval_def)
next
  case (Some v)
  have "0 \<le> (b OR push_bit k 1)" "\<not> 255 < (b OR push_bit k 1)"
    using byte_or[OF assms(4,5) bitval_nonneg[of True k] bitval_less[OF assms(6), of True]]
    by (simp_all add: bitval_def)
  then show ?thesis
    using Some assms(1-3) by (simp add: flag_def bitval_def bytearray_set_def)
qed

lemma set_bool_skip:
  assumes "sig_type c \<noteq> Some ''bool''"
  shows "set_bool_signals fmu_data ((n, c) # rest) data = set_bool_signals fmu_data rest data"
  using assms by (simp split: option.splits)

lemma set_bool_signals_light_control:
  "set_bool_signals fmu_data light_control_signals (replicate 8 0)
     = Inr [bool_byte fmu_data, 0, 0, 0, 0, 0, 0, 0]"
proof -
  have r: "replicate 8 (0::int) = [0, 0, 0, 0, 0, 0, 0, 0]"
    by (simp add: numeral_eq_Suc)
  show ?thesis
    unfolding light_control_signals_def r bool_byte_def
    by (simp add: set_bool_step set_bool_skip byte_or bitval_nonneg bitval_less or.assoc
             del: set_bool_signals.simps(2))
qed

lemma set_uint8_ok:
  assumes "convertible_at fmu_data key" "pos < length data"
  shows "set_uint8 fmu_data key pos data =
         Inr (case fmu_data key of None \<Rightarrow> data
              | Some v \<Rightarrow> data[pos := max 0 (min 255 (int_at fmu_data key))])"
  using assms
  by (auto simp: set_uint8_def convertible_at_def convertible_def int_at_def bytearray_set_def
           split: option.splits sum.splits)

lemma and_255_range: "0 \<le> (x::int) AND 255" "\<not> 255 < (x::int) AND 255" "\<not> (x::int) AND 255 < 0"
  by (simp_all add: AND_upper2' not_less)

lemma set_ambient_ok:
  assumes "convertible_at fmu_data ''ambient''" "4 < length data"
  shows "set_ambient fmu_data data =
         Inr (case fmu_data ''ambient'' of None \<Rightarrow> data
              | Some v \<Rightarrow> data[3 := drop_bit 8 (int_at fmu_data ''ambient'') AND 255,
                                4 := int_at fmu_data ''ambient'' AND 255])"
  using assms
  by (auto simp: set_ambient_def convertible_at_def convertible_def int_at_def bytearray_set_def
                 and_255_range
           split: option.splits sum.splits)

lemma encode_eq:
  assumes "convertible_at fmu_data ''light_level''" "convertible_at fmu_data ''vehicle_speed''"
    and "convertible_at fmu_data ''ambient''"
  shows "encode fmu_data =
     Inr \<lparr>can_id = 0x100,
          can_data = [bool_byte fmu_data,
                      clamp_byte (int_at fmu_data ''light_level''),
                      clamp_byte (int_at fmu_data ''vehicle_speed''),
                      drop_bit 8 (int_at fmu_data ''ambient'') AND 255,
                      int_at fmu_data ''ambient'' AND 255, 0, 0, 0],
          dlc = 8,
          sim_time = (case fmu_data ''simulation_time'' of None \<Rightarrow> PyInt 0 | Some t \<Rightarrow> t),
          source = ''autoLamp_fmu''\<rparr>"
proof -
  let ?d0 = "[bool_byte fmu_data, 0, 0, 0, 0, 0, 0, 0]"
  let ?d1 = "[bool_byte fmu_data, clamp_byte (int_at fmu_data ''light_level''), 0, 0, 0, 0, 0, 0]"
  let ?d2 = "[bool_byte fmu_data, clamp_byte (int_at fmu_data ''light_level''),
              clamp_byte (int_at fmu_data ''vehicle_speed''), 0, 0, 0, 0, 0]"
  have s1: "set_uint8 fmu_data ''light_level'' 1 ?d0 = Inr ?d1"
    using assms(1) by (simp add: set_uint8_ok clamp_byte_def int_at_def split: option.splits)
  have s2: "set_uint8 fmu_data ''vehicle_speed'' 2 ?d1 = Inr ?d2"
    using assms(2) by (simp add: set_uint8_ok clamp_byte_def int_at_def split: option.splits)
  have s3: "set_ambient fmu_data ?d2 =
      Inr [bool_byte fmu_data, clamp_byte (int_at fmu_data ''light_level''),
           clamp_byte (int_at fmu_data ''vehicle_speed''),
           drop_bit 8 (int_at fmu_data ''ambient'') AND 255,
           int_at fmu_data ''ambient'' AND 255, 0, 0, 0]"
    using assms(3) by (simp add: set_ambient_ok int_at_def split: option.splits)
  show ?thesis
    using s1 s2 s3
    by (simp add: encode_def set_bool_signals_light_control
                  light_control_id_def light_control_dlc_def)
qed

lemma bool_byte_range: "0 \<le> bool_byte fmu_data" "bool_byte fmu_data \<le> 255"
proof -
  have "0 \<le> bool_byte fmu_data \<and> bool_byte fmu_data < 256"
    unfolding bool_byte_def
    by (intro conjI byte_or bitval_nonneg bitval_less) simp_all
  then show "0 \<le> bool_byte fmu_data" "bool_byte fmu_data \<le> 255" by simp_all
qed

lemma bit_bitval: "bit (bitval f k) n \<longleftrightarrow> f \<and> n = k"
  by (auto simp: bitval_def bit_simps)

lemma and_exp_neq_0: "((x::int) AND 2 ^ n \<noteq> 0) = bit x n"
  by (simp add: and_exp_eq_0_iff_not_bit)

lemma bool_byte_bits:
  "(bool_byte fmu_data AND 1 \<noteq> 0) = flag fmu_data ''headlamp''"
  "(bool_byte fmu_data AND 2 \<noteq> 0) = flag fmu_data ''tailLamp''"
  "(bool_byte fmu_data AND 4 \<noteq> 0) = flag fmu_data ''brakeLamp''"
  "(bool_byte fmu_data AND 8 \<noteq> 0) = flag fmu_data ''indicator_left''"
  "(bool_byte fmu_data AND 16 \<noteq> 0) = flag fmu_data ''indicator_right''"
  using and_exp_neq_0[of "bool_byte fmu_data" 0] and_exp_neq_0[of "bool_byte fmu_data" 1]
    and_exp_neq_0[of "bool_byte fmu_data" 2] and_exp_neq_0[of "bool_byte fmu_data" 3]
    and_exp_neq_0[of "bool_byte fmu_data" 4]
  by (simp_all add: bool_byte_def bit_or_iff bit_bitval)

lemma ambient_bytes: "push_bit 8 (drop_bit 8 (a::int) AND 255) OR (a AND 255) = take_bit 16 a"
proof -
  have m: "(255::int) = mask 8" by (simp add: mask_eq_exp_minus_1)
  show ?thesis
    unfolding m
    by (rule bit_eqI) (auto simp: bit_simps)
qed

lemma within_declared_rangeD:
  assumes "within_declared_range fmu_data"
  shows "fmu_data ''headlamp'' = Some v \<Longrightarrow> bool_in_range v"
    and "fmu_data ''tailLamp'' = Some v \<Longrightarrow> bool_in_range v"
    and "fmu_data ''brakeLamp'' = Some v \<Longrightarrow> bool_in_range v"
    and "fmu_data ''indicator_left'' = Some v \<Longrightarrow> bool_in_range v"
    and "fmu_data ''indicator_right'' = Some v \<Longrightarrow> bool_in_range v"
    and "fmu_data ''light_level'' = Some v \<Longrightarrow> uint_in_range 255 v"
    and "fmu_data ''vehicle_speed'' = Some v \<Longrightarrow> uint_in_range 255 v"
    and "fmu_data ''ambient'' = Some v \<Longrightarrow> uint_in_range 65535 v"
  using assms
  by (simp_all add: within_declared_range_def signal_name_pairs_def declared_range_def
        light_control_signals_def)

lemma uint_in_range_convertible: "uint_in_range hi v \<Longrightarrow> convertible v"
  by (simp add: uint_in_range_def convertible_def split: sum.splits)

lemma within_declared_range_convertible:
  assumes "within_declared_range fmu_data"
  shows "convertible_at fmu_data ''light_level''" "convertible_at fmu_data ''vehicle_speed''"
    "convertible_at fmu_data ''ambient''"
  using within_declared_rangeD(6-8)[OF assms]
  by (auto simp: convertible_at_def uint_in_range_convertible split: option.splits)

lemma uint_in_range_int_at:
  assumes "fmu_data key = Some v" "uint_in_range hi v"
  shows "0 \<le> int_at fmu_data key" "int_at fmu_data key \<le> hi" "py_eq (PyInt (int_at fmu_data key)) v"
  using assms by (auto simp: uint_in_range_def int_at_def split: sum.splits)

text \<open>
  C9: whenever the entries that \<open>encode\<close> passes to \<open>int()\<close> (\<open>light_level\<close>,
  \<open>vehicle_speed\<close>, \<open>ambient\<close>) are convertible, whatever their magnitude or sign, \<open>encode\<close>
  returns a frame with identifier \<open>0x100\<close>, \<open>dlc = 8\<close> and a payload of exactly eight
  integers, each between 0 and 255.  A key that is absent from the input leaves its bit
  or its bytes at zero; bits 5 to 7 of byte 0 and bytes 5 to 7 are always zero.
\<close>

theorem encode_frame_shape:
  assumes "convertible_at fmu_data ''light_level''" "convertible_at fmu_data ''vehicle_speed''"
    and "convertible_at fmu_data ''ambient''"
  shows "\<exists>f. encode fmu_data = Inr f \<and> can_id f = 0x100 \<and> dlc f = 8 \<and>
           length (can_data f) = 8 \<and> list_all (\<lambda>b. 0 \<le> b \<and> b \<le> 255) (can_data f) \<and>
           (fmu_data ''headlamp'' = None \<longrightarrow> \<not> bit (can_data f ! 0) 0) \<and>
           (fmu_data ''tailLamp'' = None \<longrightarrow> \<not> bit (can_data f ! 0) 1) \<and>
           (fmu_data ''brakeLamp'' = None \<longrightarrow> \<not> bit (can_data f ! 0) 2) \<and>
           (fmu_data ''indicator_left'' = None \<longrightarrow> \<not> bit (can_data f ! 0) 3) \<and>
           (fmu_data ''indicator_right'' = None \<longrightarrow> \<not> bit (can_data f ! 0) 4) \<and>
           (\<forall>n. 5 \<le> n \<longrightarrow> \<not> bit (can_data f ! 0) n) \<and>
           (fmu_data ''light_level'' = None \<longrightarrow> can_data f ! 1 = 0) \<and>
           (fmu_data ''vehicle_speed'' = None \<longrightarrow> can_data f ! 2 = 0) \<and>
           (fmu_data ''ambient'' = None \<longrightarrow> can_data f ! 3 = 0 \<and> can_data f ! 4 = 0) \<and>
           can_data f ! 5 = 0 \<and> can_data f ! 6 = 0 \<and> can_data f ! 7 = 0"
proof -
  let ?data = "[bool_byte fmu_data,
                clamp_byte (int_at fmu_data ''light_level''),
                clamp_byte (int_at fmu_data ''vehicle_speed''),
                drop_bit 8 (int_at fmu_data ''ambient'') AND 255,
                int_at fmu_data ''ambient'' AND 255, 0, 0, 0]"
  have bytes: "list_all (\<lambda>b. 0 \<le> b \<and> b \<le> 255) ?data"
    by (simp add: bool_byte_range clamp_byte_def AND_upper2')
  have bits: "bit (bool_byte fmu_data) n \<longleftrightarrow>
      n = 0 \<and> flag fmu_data ''headlamp'' \<or> n = 1 \<and> flag fmu_data ''tailLamp'' \<or>
      n = 2 \<and> flag fmu_data ''brakeLamp'' \<or> n = 3 \<and> flag fmu_data ''indicator_left'' \<or>
      n = 4 \<and> flag fmu_data ''indicator_right''" for n
    by (auto simp: bool_byte_def bit_or_iff bit_bitval)
  have absent: "fmu_data key = None \<Longrightarrow> \<not> flag fmu_data key \<and> int_at fmu_data key = 0" for key
    by (simp add: flag_def int_at_def)
  show ?thesis
    unfolding encode_eq[OF assms]
    by (intro exI[of _ "\<lparr>can_id = 0x100, can_data = ?data, dlc = 8,
          sim_time = (case fmu_data ''simulation_time'' of None \<Rightarrow> PyInt 0 | Some t \<Rightarrow> t),
          source = ''autoLamp_fmu''\<rparr>"])
       (use bytes in \<open>auto simp: bits absent clamp_byte_def\<close>)
qed

theorem encode_frame_shape_witness:
  "convertible_at [''headlamp'' \<mapsto> PyBool True, ''light_level'' \<mapsto> PyFloat (-3.5),
                   ''ambient'' \<mapsto> PyInt 70000] ''light_level'' \<and>
   convertible_at [''headlamp'' \<mapsto> PyBool True, ''light_level'' \<mapsto> PyFloat (-3.5),
                   ''ambient'' \<mapsto> PyInt 70000] ''vehicle_speed'' \<and>
   convertible_at [''headlamp'' \<mapsto> PyBool True, ''light_level'' \<mapsto> PyFloat (-3.5),
                   ''ambient'' \<mapsto> PyInt 70000] ''ambient'' \<and>
   (\<exists>f. encode [''headlamp'' \<mapsto> PyBool True, ''light_level'' \<mapsto> PyFloat (-3.5),
                ''ambient'' \<mapsto> PyInt 70000] = Inr f \<and>
        can_id f = 0x100 \<and> dlc f = 8 \<and> can_data f = [1, 0, 0, 17, 112, 0, 0, 0])"
proof -
  let ?fmu = "[''headlamp'' \<mapsto> PyBool True, ''light_level'' \<mapsto> PyFloat (-3.5),
               ''ambient'' \<mapsto> PyInt 70000]"
  have c: "convertible_at ?fmu ''light_level''" "convertible_at ?fmu ''vehicle_speed''"
    "convertible_at ?fmu ''ambient''"
    by (simp_all add: convertible_at_def convertible_def)
  from encode_frame_shape[OF c] obtain f where f: "encode ?fmu = Inr f"
    and "can_id f = 0x100" "dlc f = 8" by blast
  moreover have "can_data f = [1, 0, 0, 17, 112, 0, 0, 0]"
    using f unfolding encode_eq[OF c]
    by (auto simp: bool_byte_def flag_def bitval_def int_at_def clamp_byte_def)
  ultimately show ?thesis using c by blast
qed

lemma decode_can_data_8:
  "decode_can_data 0x100 [b0, b1, b2, b3, b4, b5, b6, b7] =
    [(''headLamp'', PyBool (b0 AND 1 \<noteq> 0)), (''tailLamp'', PyBool (b0 AND 2 \<noteq> 0)),
     (''brakeLamp'', PyBool (b0 AND 4 \<noteq> 0)), (''indicatorLeft'', PyBool (b0 AND 8 \<noteq> 0)),
     (''indicatorRight'', PyBool (b0 AND 16 \<noteq> 0)),
     (''lightLevel'', PyInt b1), (''vehicleSpeed'', PyInt b2),
     (''ambient'', PyInt (push_bit 8 b3 OR b4))]"
  by (simp add: decode_can_data_def)

lemma flag_Some: "fmu_data key = Some v \<Longrightarrow> flag fmu_data key = truthy v"
  by (simp add: flag_def)

text \<open>
  C1: round trip on the light-control layout.  For every input in which each signal that
  is present lies in its declared range (a boolean for the five lamp signals, an integer
  from 0 to 255 for \<open>light_level\<close> and \<open>vehicle_speed\<close>, an integer from 0 to 65535 for
  \<open>ambient\<close>), \<open>encode\<close> succeeds, and decoding its payload with \<open>decode_can_data\<close> for
  identifier \<open>0x100\<close> gives back, under the decoder's name of each signal, a value equal
  to the one that was encoded.  No scale or offset is applied on either side.
\<close>

theorem encode_decode_roundtrip:
  assumes "within_declared_range fmu_data"
  shows "\<exists>f. encode fmu_data = Inr f \<and>
           (\<forall>(key, name) \<in> set signal_name_pairs. \<forall>v. fmu_data key = Some v \<longrightarrow>
              (\<exists>w. map_of (decode_can_data (can_id f) (can_data f)) name = Some w \<and> py_eq w v))"
proof -
  note conv = within_declared_range_convertible[OF assms]
  note rng = within_declared_rangeD[OF assms]
  have b: "fmu_data key = Some v \<Longrightarrow> bool_in_range v \<Longrightarrow>
           py_eq (PyBool (flag fmu_data key)) v" for key v
    by (simp add: flag_Some bool_in_range_def)
  have u: "fmu_data key = Some v \<Longrightarrow> uint_in_range 255 v \<Longrightarrow>
           py_eq (PyInt (clamp_byte (int_at fmu_data key))) v" for key v
    using uint_in_range_int_at[of fmu_data key v 255] by (simp add: clamp_byte_def)
  have a: "fmu_data ''ambient'' = Some v \<Longrightarrow>
           py_eq (PyInt (take_bit 16 (int_at fmu_data ''ambient''))) v" for v
    using uint_in_range_int_at[of fmu_data "''ambient''" v 65535] rng(8)[of v]
    by (simp add: take_bit_int_eq_self)
  show ?thesis
    unfolding encode_eq[OF conv]
    by (simp add: decode_can_data_8 signal_name_pairs_def bool_byte_bits ambient_bytes
          b rng u a del: py_eq.simps push_bit_and)
qed

theorem encode_decode_roundtrip_witness:
  "within_declared_range
     [''headlamp'' \<mapsto> PyBool True, ''tailLamp'' \<mapsto> PyBool False, ''brakeLamp'' \<mapsto> PyBool True,
      ''indicator_left'' \<mapsto> PyBool False, ''indicator_right'' \<mapsto> PyBool True,
      ''light_level'' \<mapsto> PyInt 200, ''vehicle_speed'' \<mapsto> PyFloat 60, ''ambient'' \<mapsto> PyInt 300] \<and>
   (\<exists>f. encode
     [''headlamp'' \<mapsto> PyBool True, ''tailLamp'' \<mapsto> PyBool False, ''brakeLamp'' \<mapsto> PyBool True,
      ''indicator_left'' \<mapsto> PyBool False, ''indicator_right'' \<mapsto> PyBool True,
      ''light_level'' \<mapsto> PyInt 200, ''vehicle_speed'' \<mapsto> PyFloat 60, ''ambient'' \<mapsto> PyInt 300]
        = Inr f \<and>
      can_data f = [21, 200, 60, 1, 44, 0, 0, 0] \<and>
      (\<exists>w. map_of (decode_can_data (can_id f) (can_data f)) ''headLamp'' = Some w \<and>
           py_eq w (PyBool True)) \<and>
      (\<exists>w. map_of (decode_can_data (can_id f) (can_data f)) ''vehicleSpeed'' = Some w \<and>
           py_eq w (PyFloat 60)) \<and>
      (\<exists>w. map_of (decode_can_data (can_id f) (can_data f)) ''ambient'' = Some w \<and>
           py_eq w (PyInt 300)))"
proof -
  let ?fmu = "[''headlamp'' \<mapsto> PyBool True, ''tailLamp'' \<mapsto> PyBool False,
      ''brakeLamp'' \<mapsto> PyBool True, ''indicator_left'' \<mapsto> PyBool False,
      ''indicator_right'' \<mapsto> PyBool True, ''light_level'' \<mapsto> PyInt 200,
      ''vehicle_speed'' \<mapsto> PyFloat 60, ''ambient'' \<mapsto> PyInt 300]"
  have h: "within_declared_range ?fmu"
    by (simp add: within_declared_range_def signal_name_pairs_def declared_range_def
          light_control_signals_def bool_in_range_def uint_in_range_def)
  from encode_decode_roundtrip[OF h] obtain f where f: "encode ?fmu = Inr f"
    and rt: "\<forall>(key, name) \<in> set signal_name_pairs. \<forall>v. ?fmu key = Some v \<longrightarrow>
              (\<exists>w. map_of (decode_can_data (can_id f) (can_data f)) name = Some w \<and> py_eq w v)"
    by blast
  have 1: "\<exists>w. map_of (decode_can_data (can_id f) (can_data f)) ''headLamp'' = Some w \<and>
          py_eq w (PyBool True)"
    using rt by (simp add: signal_name_pairs_def del: py_eq.simps)
  have 2: "\<exists>w. map_of (decode_can_data (can_id f) (can_data f)) ''vehicleSpeed'' = Some w \<and>
          py_eq w (PyFloat 60)"
    using rt by (simp add: signal_name_pairs_def del: py_eq.simps)
  have 3: "\<exists>w. map_of (decode_can_data (can_id f) (can_data f)) ''ambient'' = Some w \<and>
          py_eq w (PyInt 300)"
    using rt by (simp add: signal_name_pairs_def del: py_eq.simps)
  have 4: "can_data f = [21, 200, 60, 1, 44, 0, 0, 0]"
    using f unfolding encode_eq[OF within_declared_range_convertible[OF h]]
    by (auto simp: bool_byte_def flag_def bitval_def int_at_def clamp_byte_def)
  show ?thesis using h f 1 2 3 4 by blast
qed

text \<open>
  C6: evaluation at inputs outside the representable range.  The two byte fields are
  clamped (300 is sent and read back as 255, -7 as 0), but \<open>ambient\<close> is only masked to
  sixteen bits: 70000 is sent as the bytes 17 and 112 and read back as 4464, and -1 is read
  back as 65535, where clamping to the range 0..65535 would give 65535 and 0.
\<close>

theorem encode_out_of_range_values:
  "encode [''light_level'' \<mapsto> PyInt 300, ''vehicle_speed'' \<mapsto> PyInt (-7), ''ambient'' \<mapsto> PyInt 70000]
     = Inr \<lparr>can_id = 0x100, can_data = [0, 255, 0, 17, 112, 0, 0, 0], dlc = 8,
            sim_time = PyInt 0, source = ''autoLamp_fmu''\<rparr> \<and>
   decode_can_data 0x100 [0, 255, 0, 17, 112, 0, 0, 0]
     = [(''headLamp'', PyBool False), (''tailLamp'', PyBool False), (''brakeLamp'', PyBool False),
        (''indicatorLeft'', PyBool False), (''indicatorRight'', PyBool False),
        (''lightLevel'', PyInt 255), (''vehicleSpeed'', PyInt 0), (''ambient'', PyInt 4464)] \<and>
   encode [''ambient'' \<mapsto> PyInt (-1)]
     = Inr \<lparr>can_id = 0x100, can_data = [0, 0, 0, 255, 255, 0, 0, 0], dlc = 8,
            sim_time = PyInt 0, source = ''autoLamp_fmu''\<rparr> \<and>
   map_of (decode_can_data 0x100 [0, 0, 0, 255, 255, 0, 0, 0]) ''ambient'' = Some (PyInt 65535)"
proof -
  let ?a = "[''light_level'' \<mapsto> PyInt 300, ''vehicle_speed'' \<mapsto> PyInt (-7),
             ''ambient'' \<mapsto> PyInt 70000]"
  let ?b = "[''ambient'' \<mapsto> PyInt (-1)]"
  have ca: "convertible_at ?a ''light_level''" "convertible_at ?a ''vehicle_speed''"
    "convertible_at ?a ''ambient''"
    by (simp_all add: convertible_at_def convertible_def)
  have cb: "convertible_at ?b ''light_level''" "convertible_at ?b ''vehicle_speed''"
    "convertible_at ?b ''ambient''"
    by (simp_all add: convertible_at_def convertible_def)
  have 1: "encode ?a = Inr \<lparr>can_id = 0x100, can_data = [0, 255, 0, 17, 112, 0, 0, 0], dlc = 8,
            sim_time = PyInt 0, source = ''autoLamp_fmu''\<rparr>"
    unfolding encode_eq[OF ca]
    by (simp add: bool_byte_def flag_def bitval_def int_at_def clamp_byte_def)
  have 2: "encode ?b = Inr \<lparr>can_id = 0x100, can_data = [0, 0, 0, 255, 255, 0, 0, 0], dlc = 8,
            sim_time = PyInt 0, source = ''autoLamp_fmu''\<rparr>"
    unfolding encode_eq[OF cb]
    by (simp add: bool_byte_def flag_def bitval_def int_at_def clamp_byte_def)
  have 3: "decode_can_data 0x100 [0, 255, 0, 17, 112, 0, 0, 0]
     = [(''headLamp'', PyBool False), (''tailLamp'', PyBool False), (''brakeLamp'', PyBool False),
        (''indicatorLeft'', PyBool False), (''indicatorRight'', PyBool False),
        (''lightLevel'', PyInt 255), (''vehicleSpeed'', PyInt 0), (''ambient'', PyInt 4464)]"
    by (simp add: decode_can_data_8)
  have 4: "map_of (decode_can_data 0x100 [0, 0, 0, 255, 255, 0, 0, 0]) ''ambient''
      = Some (PyInt 65535)"
    by (simp add: decode_can_data_8)
  show ?thesis using 1 2 3 4 by (simp only: simp_thms)
qed

section \<open>Properties of the socket server\<close>

subsection \<open>The backup queue\<close>

lemma forward_message_maxsize:
  "maxsize (message_queue (forward_message sent fw x)) = maxsize (message_queue fw)"
  by (auto simp: forward_message_def put_nowait_def get_nowait_def Let_def
           split: sum.splits list.splits prod.splits)

lemma forward_message_not_full:
  assumes "maxsize (message_queue fw) = 1000" "length (backup_buffer fw) < 1000"
  shows "backup_buffer (forward_message True fw x) = backup_buffer fw @ [x]"
  using assms by (simp add: forward_message_def put_nowait_def backup_buffer_def Let_def)

lemma forward_message_full:
  assumes "maxsize (message_queue fw) = 1000" "length (backup_buffer fw) = 1000"
  shows "backup_buffer (forward_message True fw x) = tl (backup_buffer fw) @ [x]"
  using assms
  by (cases "queue_items (message_queue fw)")
     (simp_all add: forward_message_def put_nowait_def get_nowait_def backup_buffer_def Let_def)

lemma foldl_forward_maxsize:
  "maxsize (message_queue (foldl (forward_message sent) fw xs)) = maxsize (message_queue fw)"
  by (induction xs rule: rev_induct) (simp_all add: forward_message_maxsize)

lemma backup_buffer_foldl:
  "backup_buffer (foldl (forward_message True) new_forwarder frames)
     = drop (length frames - 1000) frames"
proof (induction frames rule: rev_induct)
  case Nil
  show ?case by (simp add: new_forwarder_def backup_buffer_def)
next
  case (snoc x xs)
  let ?fw = "foldl (forward_message True) new_forwarder xs"
  have m: "maxsize (message_queue ?fw) = 1000"
    by (simp add: foldl_forward_maxsize new_forwarder_def)
  show ?case
  proof (cases "length xs < 1000")
    case True
    then have "length (backup_buffer ?fw) < 1000" by (simp add: snoc.IH)
    from forward_message_not_full[OF m this] True show ?thesis
      by (simp add: snoc.IH)
  next
    case False
    then have "length (backup_buffer ?fw) = 1000" by (simp add: snoc.IH)
    moreover have "length xs - 999 = Suc (length xs - 1000)"
      using False by simp
    ultimately show ?thesis
      using forward_message_full[OF m, of x] False
      by (simp add: snoc.IH drop_Suc tl_drop)
  qed
qed

text \<open>
  C5: the backup queue is created with capacity 1000.  When it holds 1000 frames,
  \<open>forward_message\<close> removes exactly the oldest one and appends the new frame.  Started
  empty, the queue holds after any sequence of frames the last 1000 of them (all of them
  when there are fewer) in arrival order, so the newest frame is always kept and the
  capacity is never exceeded; after frames 1 to 1050 it holds frames 51 to 1050.  The
  frames are handled one after the other, as a single connection delivers them.
\<close>

theorem backup_buffer_oldest_dropped:
  "maxsize (message_queue (new_forwarder :: 'a forwarder)) = 1000 \<and>
   (\<forall>frames :: 'a list.
      backup_buffer (foldl (forward_message True) new_forwarder frames)
        = drop (length frames - 1000) frames \<and>
      length (backup_buffer (foldl (forward_message True) new_forwarder frames)) \<le> 1000) \<and>
   (\<forall>(fw :: 'a forwarder) x.
      maxsize (message_queue fw) = 1000 \<and> length (backup_buffer fw) = 1000 \<longrightarrow>
      backup_buffer (forward_message True fw x) = tl (backup_buffer fw) @ [x]) \<and>
   backup_buffer (foldl (forward_message True) new_forwarder [1 ..< 1051]) = [51 ..< 1051]"
proof (intro conjI allI impI)
  show "maxsize (message_queue (new_forwarder :: 'a forwarder)) = 1000"
    by (simp add: new_forwarder_def)
next
  fix frames :: "'a list"
  show "backup_buffer (foldl (forward_message True) new_forwarder frames)
          = drop (length frames - 1000) frames"
    by (rule backup_buffer_foldl)
  show "length (backup_buffer (foldl (forward_message True) new_forwarder frames)) \<le> 1000"
    unfolding backup_buffer_foldl length_drop by arith
next
  fix fw :: "'a forwarder" and x
  assume "maxsize (message_queue fw) = 1000 \<and> length (backup_buffer fw) = 1000"
  then show "backup_buffer (forward_message True fw x) = tl (backup_buffer fw) @ [x]"
    by (simp add: forward_message_full)
next
  have "length [1 ..< 1051] - 1000 = (50 :: nat)"
    by (simp only: length_upt)
  moreover have "drop 50 [1 ..< 1051] = [1 + 50 ..< 1051]"
    by (simp only: drop_upt)
  moreover have "(1 :: nat) + 50 = 51" by simp
  ultimately show "backup_buffer (foldl (forward_message True) new_forwarder [1 ..< 1051])
      = ([51 ..< 1051] :: nat list)"
    by (simp only: backup_buffer_foldl)
qed

theorem backup_buffer_oldest_dropped_witness:
  "maxsize (message_queue \<lparr>published = [], message_queue = \<lparr>maxsize = 1000,
       queue_items = replicate 1000 (0 :: nat)\<rparr>\<rparr>) = 1000 \<and>
   length (backup_buffer \<lparr>published = [], message_queue = \<lparr>maxsize = 1000,
       queue_items = replicate 1000 (0 :: nat)\<rparr>\<rparr>) = 1000 \<and>
   backup_buffer (forward_message True \<lparr>published = [], message_queue = \<lparr>maxsize = 1000,
       queue_items = replicate 1000 (0 :: nat)\<rparr>\<rparr> 7) = replicate 999 0 @ [7]"
proof -
  let ?fw = "\<lparr>published = [], message_queue = \<lparr>maxsize = 1000,
       queue_items = replicate 1000 (0 :: nat)\<rparr>\<rparr>"
  have h: "maxsize (message_queue ?fw) = 1000 \<and> length (backup_buffer ?fw) = 1000"
    by (simp add: backup_buffer_def)
  have "tl (backup_buffer ?fw) = replicate 999 0"
    by (simp add: backup_buffer_def tl_replicate)
  with h backup_buffer_oldest_dropped show ?thesis
    by metis
qed

section \<open>Properties of the zonal controller\<close>

subsection \<open>Decoding\<close>

lemma manual_decode_8:
  "manual_decode 0x100 [b0, b1, b2, b3, b4, b5, b6, b7] d =
    [(''headLamp'', PyBool (b0 AND 1 \<noteq> 0)), (''tailLamp'', PyBool (b0 AND 2 \<noteq> 0)),
     (''brakeLamp'', PyBool (b0 AND 4 \<noteq> 0)), (''indicatorLeft'', PyBool (b0 AND 8 \<noteq> 0)),
     (''indicatorRight'', PyBool (b0 AND 16 \<noteq> 0)),
     (''lightLevel'', PyInt b1), (''vehicleSpeed'', PyInt b2)]"
  by (simp add: manual_decode_def)

lemma byte_low:
  assumes "is_byte b"
  shows "drop_bit 8 (b + 256 * m) = m" and "take_bit 8 (b + 256 * m) = b"
    and "k < 8 \<Longrightarrow> bit (b + 256 * m) k = bit b k"
proof -
  have b: "0 \<le> b" "b < 256" using assms by (simp_all add: is_byte_def)
  then have c: "b + 256 * m = concat_bit 8 b m"
    by (simp add: concat_bit_eq take_bit_int_eq_self push_bit_eq_mult)
  show "drop_bit 8 (b + 256 * m) = m"
    using b by (simp add: drop_bit_eq_div)
  show "take_bit 8 (b + 256 * m) = b"
    using b by (simp add: take_bit_eq_mod)
  show "bit (b + 256 * m) k = bit b k" if "k < 8"
    unfolding c using that by (simp add: bit_concat_bit_iff)
qed

lemma take_bit_1_drop: "take_bit (Suc 0) (drop_bit k (x::int)) = (if bit x k then 1 else 0)"
  by (simp add: take_bit_Suc_from_most bit_iff_odd_drop_bit mod_2_eq_odd)


lemma frame_bits_Cons: "frame_bits (b # rest) = b + 256 * frame_bits rest"
  by (simp add: frame_bits_def)

lemma lamp_bit:
  assumes "is_byte b0" "k < 8"
  shows "take_bit (Suc 0) (drop_bit k (frame_bits (b0 # rest))) = (if bit b0 k then 1 else 0)"
  by (simp only: frame_bits_Cons take_bit_1_drop byte_low(3)[OF assms])

lemma second_byte:
  assumes "is_byte b0" "is_byte b1"
  shows "take_bit 8 (drop_bit 8 (frame_bits (b0 # b1 # rest))) = b1"
  by (simp only: frame_bits_Cons byte_low(1)[OF assms(1)] byte_low(2)[OF assms(2)])

lemma third_byte:
  assumes "is_byte b0" "is_byte b1" "is_byte b2"
  shows "take_bit 8 (drop_bit 16 (frame_bits (b0 # b1 # b2 # rest))) = b2"
proof -
  have "drop_bit 16 x = drop_bit 8 (drop_bit 8 x)" for x :: int
    by (simp add: drop_bit_drop_bit)
  then show ?thesis
    by (simp only: frame_bits_Cons byte_low(1)[OF assms(1)] byte_low(1)[OF assms(2)]
          byte_low(2)[OF assms(3)])
qed

lemma layout_decode_8:
  assumes "is_byte b0" "is_byte b1" "is_byte b2"
  shows "layout_decode light_control_msg [b0, b1, b2, b3, b4, b5, b6, b7] 8 =
    [(''headLamp'', PyInt (if bit b0 0 then 1 else 0)),
     (''tailLamp'', PyInt (if bit b0 1 then 1 else 0)),
     (''brakeLamp'', PyInt (if bit b0 2 then 1 else 0)),
     (''indicatorLeft'', PyInt (if bit b0 3 then 1 else 0)),
     (''indicatorRight'', PyInt (if bit b0 4 then 1 else 0)),
     (''lightLevel'', PyInt b1), (''vehicleSpeed'', PyInt b2)]"
  using lamp_bit[OF assms(1), of 0] lamp_bit[OF assms(1), of 1] lamp_bit[OF assms(1), of 2]
    lamp_bit[OF assms(1), of 3] lamp_bit[OF assms(1), of 4]
    second_byte[OF assms(1,2)] third_byte[OF assms]
  by (simp add: layout_decode_def light_control_msg_def lamp_signal_def
        within_declared_length_def raw_value_def)

lemma and_bit_tests:
  "((b::int) AND 1 \<noteq> 0) = bit b 0" "((b::int) AND 2 \<noteq> 0) = bit b 1"
  "((b::int) AND 4 \<noteq> 0) = bit b 2" "((b::int) AND 8 \<noteq> 0) = bit b 3"
  "((b::int) AND 16 \<noteq> 0) = bit b 4"
  using and_exp_eq_0_iff_not_bit[of b 0] and_exp_eq_0_iff_not_bit[of b 1]
    and_exp_eq_0_iff_not_bit[of b 2] and_exp_eq_0_iff_not_bit[of b 3]
    and_exp_eq_0_iff_not_bit[of b 4]
  by simp_all

lemma length_8_cases:
  assumes "length (data :: 'a list) = 8"
  obtains b0 b1 b2 b3 b4 b5 b6 b7 where "data = [b0, b1, b2, b3, b4, b5, b6, b7]"
proof -
  from assms obtain b0 b1 b2 b3 b4 b5 b6 b7 r where "data = b0 # b1 # b2 # b3 # b4 # b5 # b6 # b7 # r"
    by (auto simp: length_Suc_conv numeral_eq_Suc)
  with assms that show thesis by simp
qed

text \<open>
  C4: for every payload of eight bytes the hand-written decoder for identifier \<open>0x100\<close>
  and the table-driven decode of the virtual light-control layout report the same signal
  names in the same order with equal values: the five lamps from bits 0 to 4 of byte 0,
  \<open>lightLevel\<close> from byte 1 and \<open>vehicleSpeed\<close> from byte 2.  Values are compared as Python
  compares them: the manual decoder reports a lamp as \<open>True\<close>/\<open>False\<close>, the layout as 1/0.
\<close>

theorem manual_decode_matches_layout:
  assumes "length data = 8" "list_all is_byte data"
  shows "same_signals (manual_decode 0x100 data light_control_msg)
           (layout_decode light_control_msg data 8)"
proof -
  from assms(1) obtain b0 b1 b2 b3 b4 b5 b6 b7 where d: "data = [b0, b1, b2, b3, b4, b5, b6, b7]"
    by (rule length_8_cases)
  with assms(2) have b: "is_byte b0" "is_byte b1" "is_byte b2" by simp_all
  show ?thesis
    unfolding d manual_decode_8 layout_decode_8[OF b]
    by (simp add: same_signals_def and_bit_tests)
qed

theorem manual_decode_matches_layout_witness:
  "length [1, 50, 60, 0, 0, 0, 0, 0 :: int] = 8 \<and> list_all is_byte [1, 50, 60, 0, 0, 0, 0, 0] \<and>
   same_signals (manual_decode 0x100 [1, 50, 60, 0, 0, 0, 0, 0] light_control_msg)
     (layout_decode light_control_msg [1, 50, 60, 0, 0, 0, 0, 0] 8)"
proof -
  have h: "length [1, 50, 60, 0, 0, 0, 0, 0 :: int] = 8" "list_all is_byte [1, 50, 60, 0, 0, 0, 0, 0]"
    by (simp_all add: is_byte_def)
  from manual_decode_matches_layout[OF h] h show ?thesis by blast
qed

lemma find_light_control:
  "find (\<lambda>msg. frame_id msg = 0x100) create_virtual_database = Some light_control_msg"
  by (simp add: create_virtual_database_def light_control_msg_def)

lemma make_signal_light_control:
  "make_signal light_control_msg (''headLamp'', v) = [can_signal ''headLamp'' v '''' 1]"
  "make_signal light_control_msg (''tailLamp'', v) = [can_signal ''tailLamp'' v '''' 1]"
  "make_signal light_control_msg (''brakeLamp'', v) = [can_signal ''brakeLamp'' v '''' 1]"
  "make_signal light_control_msg (''indicatorLeft'', v) = [can_signal ''indicatorLeft'' v '''' 1]"
  "make_signal light_control_msg (''indicatorRight'', v) = [can_signal ''indicatorRight'' v '''' 1]"
  "make_signal light_control_msg (''lightLevel'', v) = [can_signal ''lightLevel'' v ''%'' 255]"
  "make_signal light_control_msg (''vehicleSpeed'', v) = [can_signal ''vehicleSpeed'' v ''km/h'' 255]"
  by (simp_all add: make_signal_def light_control_msg_def lamp_signal_def can_signal_def)

lemma decode_message_found:
  assumes "find (\<lambda>msg. frame_id msg = cid) db = Some msg_def" "\<not> length data < 8"
  shows "decode_message db now raised cid data =
    Some \<lparr>cm_timestamp = now, cm_can_id = cid,
          cm_signals = concat (map (make_signal msg_def)
             (if raised then manual_decode cid data msg_def
              else layout_decode msg_def data (length data))),
          cm_raw_data = data, cm_dlc = length data,
          cm_can_id_description = dm_name msg_def, cm_direction = ''RX'',
          cm_source = ''CAN_Bus''\<rparr>"
  using assms by (simp add: decode_message_def Let_def)

lemma decode_message_8:
  assumes "is_byte b0" "is_byte b1" "is_byte b2"
  shows "decode_message create_virtual_database now raised 0x100 [b0, b1, b2, b3, b4, b5, b6, b7] =
    Some \<lparr>cm_timestamp = now, cm_can_id = 0x100,
          cm_signals = light_control_values raised b0 b1 b2,
          cm_raw_data = [b0, b1, b2, b3, b4, b5, b6, b7], cm_dlc = 8,
          cm_can_id_description = ''LIGHT_CONTROL'', cm_direction = ''RX'',
          cm_source = ''CAN_Bus''\<rparr>"
proof -
  let ?d = "[b0, b1, b2, b3, b4, b5, b6, b7]"
  have len: "length ?d = 8" by simp
  have dec: "(if raised then manual_decode 0x100 ?d light_control_msg
              else layout_decode light_control_msg ?d 8) =
      [(''headLamp'', lamp_value raised b0 0), (''tailLamp'', lamp_value raised b0 1),
       (''brakeLamp'', lamp_value raised b0 2), (''indicatorLeft'', lamp_value raised b0 3),
       (''indicatorRight'', lamp_value raised b0 4),
       (''lightLevel'', PyInt b1), (''vehicleSpeed'', PyInt b2)]"
    by (simp add: manual_decode_8 layout_decode_8[OF assms] and_bit_tests lamp_value_def)
  have name: "dm_name light_control_msg = ''LIGHT_CONTROL''"
    by (simp add: light_control_msg_def)
  have "\<not> length ?d < 8" by simp
  from decode_message_found[OF find_light_control this] show ?thesis
    by (simp only: len dec name) (simp add: make_signal_light_control light_control_values_def)
qed

lemma decode_message_pad:
  assumes "length data < 8"
  shows "decode_message db now raised cid data =
         decode_message db now raised cid (data @ replicate (8 - length data) 0)"
  using assms by (simp add: decode_message_def)

lemma signal_value_light_control:
  "signal_value \<lparr>cm_timestamp = t, cm_can_id = c, cm_signals = light_control_values r b0 b1 b2,
      cm_raw_data = d, cm_dlc = n, cm_can_id_description = k, cm_direction = x,
      cm_source = y\<rparr> =
    map_of [(''headLamp'', lamp_value r b0 0), (''tailLamp'', lamp_value r b0 1),
            (''brakeLamp'', lamp_value r b0 2), (''indicatorLeft'', lamp_value r b0 3),
            (''indicatorRight'', lamp_value r b0 4),
            (''lightLevel'', PyInt b1), (''vehicleSpeed'', PyInt b2)]"
  by (rule ext) (simp add: signal_value_def light_control_values_def can_signal_def)

lemma lamp_value_zero: "py_eq (lamp_value r 0 k) (PyInt 0)"
  by (simp add: lamp_value_def)

text \<open>
  C2, as stated, fails: a frame of one byte is decoded with \<open>lightLevel = 0\<close> and
  \<open>vehicleSpeed = 0\<close> in the result, on the library path and on the manual path, although
  both signals lie beyond the eight bits that were received.
\<close>

theorem short_frame_zero_filled:
  "(case decode_message create_virtual_database 0 True 0x100 [1] of
      None \<Rightarrow> []
    | Some m \<Rightarrow> map (\<lambda>s. (cs_name s, cs_value s)) (cm_signals m))
     = [(''headLamp'', PyBool True), (''tailLamp'', PyBool False), (''brakeLamp'', PyBool False),
        (''indicatorLeft'', PyBool False), (''indicatorRight'', PyBool False),
        (''lightLevel'', PyInt 0), (''vehicleSpeed'', PyInt 0)] \<and>
   (case decode_message create_virtual_database 0 False 0x100 [1] of
      None \<Rightarrow> []
    | Some m \<Rightarrow> map (\<lambda>s. (cs_name s, cs_value s)) (cm_signals m))
     = [(''headLamp'', PyInt 1), (''tailLamp'', PyInt 0), (''brakeLamp'', PyInt 0),
        (''indicatorLeft'', PyInt 0), (''indicatorRight'', PyInt 0),
        (''lightLevel'', PyInt 0), (''vehicleSpeed'', PyInt 0)] \<and>
   \<not> within_declared_length 1 (dm_signals light_control_msg ! 5) \<and>
   \<not> within_declared_length 1 (dm_signals light_control_msg ! 6)"
proof -
  have p: "[1 :: int] @ replicate (8 - length [1 :: int]) 0 = [1, 0, 0, 0, 0, 0, 0, 0]"
    by (simp add: numeral_eq_Suc)
  have b: "is_byte 1" "is_byte 0" by (simp_all add: is_byte_def)
  have d: "decode_message create_virtual_database 0 raised 0x100 [1] =
           decode_message create_virtual_database 0 raised 0x100 [1, 0, 0, 0, 0, 0, 0, 0]" for raised
    using decode_message_pad[of "[1]" create_virtual_database 0 raised "0x100"] p by simp
  show ?thesis
    unfolding d decode_message_8[OF b(1) b(2) b(2)]
    by (simp add: light_control_values_def can_signal_def lamp_value_def
          within_declared_length_def light_control_msg_def)
qed

text \<open>
  C2, amended: \<open>decode_message\<close> fills data shorter than eight bytes up with zero bytes
  before it decodes, and records eight as the length.  A short light-control frame
  therefore decodes exactly like the filled-up frame: all seven signals are reported, and
  every signal that starts at or beyond the received bytes is reported with the value 0.
\<close>

theorem short_frame_padded:
  assumes "length data < 8" "list_all is_byte data"
  shows "decode_message create_virtual_database now raised 0x100 data =
           decode_message create_virtual_database now raised 0x100
             (data @ replicate (8 - length data) 0) \<and>
         (\<exists>m. decode_message create_virtual_database now raised 0x100 data = Some m \<and>
            cm_raw_data m = data @ replicate (8 - length data) 0 \<and> cm_dlc m = 8 \<and>
            map cs_name (cm_signals m) = map ds_name (dm_signals light_control_msg) \<and>
            (\<forall>s \<in> set (dm_signals light_control_msg). length data * 8 \<le> ds_start s \<longrightarrow>
               (\<exists>v. signal_value m (ds_name s) = Some v \<and> py_eq v (PyInt 0))))"
proof -
  let ?p = "data @ replicate (8 - length data) 0"
  have "length ?p = 8" using assms(1) by simp
  then obtain b0 b1 b2 b3 b4 b5 b6 b7 where p: "?p = [b0, b1, b2, b3, b4, b5, b6, b7]"
    by (rule length_8_cases)
  have "list_all is_byte ?p" using assms(2) by (auto simp: is_byte_def list_all_iff)
  then have b: "is_byte b0" "is_byte b1" "is_byte b2" unfolding p by simp_all
  have nth: "?p ! i = (if i < length data then data ! i else 0)" if "i < 8" for i
    using that assms(1) by (simp add: nth_append)
  have z0: "b0 = 0" if "length data = 0"
    using nth[of 0] that unfolding p by simp
  have z1: "b1 = 0" if "length data \<le> 1"
    using nth[of 1] that unfolding p by simp
  have z2: "b2 = 0" if "length data \<le> 2"
    using nth[of 2] that unfolding p by simp
  have eq: "decode_message create_virtual_database now raised 0x100 data =
            decode_message create_virtual_database now raised 0x100 ?p"
    by (rule decode_message_pad[OF assms(1)])
  have names: "map cs_name (light_control_values raised b0 b1 b2)
      = map ds_name (dm_signals light_control_msg)"
    by (simp add: light_control_values_def can_signal_def light_control_msg_def lamp_signal_def)
  have zeros: "\<forall>s \<in> set (dm_signals light_control_msg). length data * 8 \<le> ds_start s \<longrightarrow>
      (\<exists>v. map_of [(''headLamp'', lamp_value raised b0 0), (''tailLamp'', lamp_value raised b0 1),
            (''brakeLamp'', lamp_value raised b0 2), (''indicatorLeft'', lamp_value raised b0 3),
            (''indicatorRight'', lamp_value raised b0 4),
            (''lightLevel'', PyInt b1), (''vehicleSpeed'', PyInt b2)] (ds_name s) = Some v \<and>
           py_eq v (PyInt 0))"
  proof -
    have l: "py_eq (lamp_value raised b0 k) (PyInt 0)" if "length data * 8 \<le> k" "k < 8" for k
    proof -
      from that have "length data = 0" by arith
      then show ?thesis using z0 lamp_value_zero by simp
    qed
    have e: "py_eq (PyInt 0) (PyInt 0)" by simp
    have l1: "py_eq (PyInt b1) (PyInt 0)" if "length data * 8 \<le> 8"
      using that z1 by simp
    have l2: "py_eq (PyInt b2) (PyInt 0)" if "length data * 8 \<le> 16"
      using that z2 by simp
    show ?thesis
      using l[of 0] l[of 1] l[of 2] l[of 3] l[of 4] l1 l2
      by (simp add: light_control_msg_def lamp_signal_def del: py_eq.simps)
  qed
  show ?thesis
    unfolding eq unfolding p decode_message_8[OF b]
    using names zeros by (simp add: signal_value_light_control del: py_eq.simps)
qed

theorem short_frame_padded_witness:
  "length [1 :: int] < 8 \<and> list_all is_byte [1] \<and>
   decode_message create_virtual_database 0 True 0x100 [1] =
     decode_message create_virtual_database 0 True 0x100 [1, 0, 0, 0, 0, 0, 0, 0] \<and>
   (\<exists>m. decode_message create_virtual_database 0 True 0x100 [1] = Some m \<and> cm_dlc m = 8 \<and>
      (\<exists>v. signal_value m ''lightLevel'' = Some v \<and> py_eq v (PyInt 0)))"
proof -
  have h: "length [1 :: int] < 8" "list_all is_byte [1]" by (simp_all add: is_byte_def)
  have p: "[1 :: int] @ replicate (8 - length [1 :: int]) 0 = [1, 0, 0, 0, 0, 0, 0, 0]"
    by (simp add: numeral_eq_Suc)
  have s: "\<lparr>ds_name = ''lightLevel'', ds_start = 8, ds_length = 8, is_signed = False, ds_scale = 1,
        ds_offset = 0, minimum = Some 0, maximum = Some 255, ds_unit = Some ''%'',
        ds_comment = None, receivers = [''ZC'']\<rparr> \<in> set (dm_signals light_control_msg)"
    by (simp add: light_control_msg_def)
  from short_frame_padded[OF h, of 0 True] obtain m where
    e: "decode_message create_virtual_database 0 True 0x100 [1] =
        decode_message create_virtual_database 0 True 0x100 ([1] @ replicate (8 - length [1 :: int]) 0)"
    and m: "decode_message create_virtual_database 0 True 0x100 [1] = Some m" "cm_dlc m = 8"
    and z: "\<forall>s \<in> set (dm_signals light_control_msg). length [1 :: int] * 8 \<le> ds_start s \<longrightarrow>
               (\<exists>v. signal_value m (ds_name s) = Some v \<and> py_eq v (PyInt 0))"
    by blast
  from z s have "\<exists>v. signal_value m ''lightLevel'' = Some v \<and> py_eq v (PyInt 0)"
    by force
  with h e m show ?thesis unfolding p by blast
qed

section \<open>Properties of frame validation\<close>

lemma validate_message_verdict:
  "fst (validate_message st e) = (spec_validate e = None)"
  by (auto simp: validate_message_def spec_validate_def required_fields_present_def
        identifier_in_range_def declared_length_in_range_def payload_length_is_8_def
        split: option.splits)

lemma validate_message_class:
  "map class_of (fst (snd (validate_message st e))) =
     (case spec_validate e of None \<Rightarrow> [] | Some c \<Rightarrow> [c])"
  by (auto simp: validate_message_def spec_validate_def required_fields_present_def
        identifier_in_range_def declared_length_in_range_def payload_length_is_8_def
        split: option.splits)

text \<open>
  C3: \<open>validate_message\<close> applies four rules in this order: the required fields are
  present, the identifier lies in \<open>0x000..0x7FF\<close>, the declared length lies in \<open>0..8\<close>, the
  payload has exactly eight entries.  It accepts exactly when no rule fails, and the error
  it logs belongs to the first rule that fails.  So identifier \<open>0x800\<close> is rejected, a
  payload of seven entries is rejected, and identifier \<open>0x100\<close> with declared length 8 and
  payload \<open>[1,50,60,0,0,0,0,0]\<close> is accepted; that payload decodes to \<open>headLamp\<close> true,
  \<open>lightLevel\<close> 50 and \<open>vehicleSpeed\<close> 60, by the manual decoder and by \<open>decode_message\<close> on
  either path.
\<close>

theorem validation_rules_in_order:
  "fst (validate_message st e) = (spec_validate e = None) \<and>
   map class_of (fst (snd (validate_message st e))) =
     (case spec_validate e of None \<Rightarrow> [] | Some c \<Rightarrow> [c]) \<and>
   fst (validate_message st \<lparr>msg_can_id = Some 0x800,
          msg_can_data = Some [1, 50, 60, 0, 0, 0, 0, 0], msg_dlc = Some 8\<rparr>) = False \<and>
   fst (validate_message st \<lparr>msg_can_id = Some 0x100,
          msg_can_data = Some [1, 50, 60, 0, 0, 0, 0], msg_dlc = Some 8\<rparr>) = False \<and>
   fst (validate_message st \<lparr>msg_can_id = Some 0x100,
          msg_can_data = Some [1, 50, 60, 0, 0, 0, 0, 0], msg_dlc = Some 8\<rparr>) = True \<and>
   manual_decode 0x100 [1, 50, 60, 0, 0, 0, 0, 0] light_control_msg =
     [(''headLamp'', PyBool True), (''tailLamp'', PyBool False), (''brakeLamp'', PyBool False),
      (''indicatorLeft'', PyBool False), (''indicatorRight'', PyBool False),
      (''lightLevel'', PyInt 50), (''vehicleSpeed'', PyInt 60)] \<and>
   map_option (\<lambda>m. (signal_value m ''headLamp'', signal_value m ''lightLevel'',
                     signal_value m ''vehicleSpeed''))
     (decode_message create_virtual_database now True 0x100 [1, 50, 60, 0, 0, 0, 0, 0])
     = Some (Some (PyBool True), Some (PyInt 50), Some (PyInt 60)) \<and>
   map_option (\<lambda>m. (signal_value m ''headLamp'', signal_value m ''lightLevel'',
                     signal_value m ''vehicleSpeed''))
     (decode_message create_virtual_database now False 0x100 [1, 50, 60, 0, 0, 0, 0, 0])
     = Some (Some (PyInt 1), Some (PyInt 50), Some (PyInt 60))"
proof -
  have b: "is_byte 1" "is_byte 50" "is_byte 60" by (simp_all add: is_byte_def)
  have v: "fst (validate_message st \<lparr>msg_can_id = Some 0x800,
          msg_can_data = Some [1, 50, 60, 0, 0, 0, 0, 0], msg_dlc = Some 8\<rparr>) = False"
    "fst (validate_message st \<lparr>msg_can_id = Some 0x100,
          msg_can_data = Some [1, 50, 60, 0, 0, 0, 0], msg_dlc = Some 8\<rparr>) = False"
    "fst (validate_message st \<lparr>msg_can_id = Some 0x100,
          msg_can_data = Some [1, 50, 60, 0, 0, 0, 0, 0], msg_dlc = Some 8\<rparr>) = True"
    by (simp_all add: validate_message_def)
  have m: "manual_decode 0x100 [1, 50, 60, 0, 0, 0, 0, 0] light_control_msg =
     [(''headLamp'', PyBool True), (''tailLamp'', PyBool False), (''brakeLamp'', PyBool False),
      (''indicatorLeft'', PyBool False), (''indicatorRight'', PyBool False),
      (''lightLevel'', PyInt 50), (''vehicleSpeed'', PyInt 60)]"
    by (simp add: manual_decode_8)
  have d: "map_option (\<lambda>m. (signal_value m ''headLamp'', signal_value m ''lightLevel'',
                     signal_value m ''vehicleSpeed''))
     (decode_message create_virtual_database now r 0x100 [1, 50, 60, 0, 0, 0, 0, 0])
     = Some (Some (lamp_value r 1 0), Some (PyInt 50), Some (PyInt 60))" for r
    unfolding decode_message_8[OF b]
    by (simp add: signal_value_light_control)
  show ?thesis
    using validate_message_verdict[of st e] validate_message_class[of st e] v m
      d[of True] d[of False]
    by (simp add: lamp_value_def)
qed

text \<open>A rejected message reaches neither the CAN bus nor the forwarder, and handling it
  leaves the connection flag alone.\<close>

lemma process_message_rejected:
  assumes "spec_validate e \<noteq> None"
  shows "fst (process_message st e) = None"
proof -
  let ?st1 = "st\<lparr>total_received := total_received st + 1\<rparr>"
  obtain ok l st' where v: "validate_message ?st1 e = (ok, l, st')"
    by (cases "validate_message ?st1 e") auto
  with assms validate_message_verdict[of ?st1 e] have "\<not> ok" by simp
  with v show ?thesis by (simp add: process_message_def Let_def)
qed

lemma rejected_is_dropped:
  assumes "spec_validate e \<noteq> None"
  shows "can_bus_sent (process_incoming_message env s (Some e)) = can_bus_sent s"
    and "srv_forwarder (process_incoming_message env s (Some e)) = srv_forwarder s"
    and "messages_forwarded (process_incoming_message env s (Some e)) = messages_forwarded s"
    and "client_connected (process_incoming_message env s (Some e)) = client_connected s"
proof -
  let ?s1 = "s\<lparr>messages_received := messages_received s + 1\<rparr>"
  obtain p l st' where pm: "process_message (processor ?s1) e = (p, l, st')"
    by (cases "process_message (processor ?s1) e") auto
  with process_message_rejected[OF assms, of "processor ?s1"] have "p = None" by simp
  with pm show "can_bus_sent (process_incoming_message env s (Some e)) = can_bus_sent s"
    and "srv_forwarder (process_incoming_message env s (Some e)) = srv_forwarder s"
    and "messages_forwarded (process_incoming_message env s (Some e)) = messages_forwarded s"
    and "client_connected (process_incoming_message env s (Some e)) = client_connected s"
    by (simp_all add: process_incoming_message_def Let_def)
qed

text \<open>
  C7: evaluation of message handling on a fresh server at one message per failure class.
  All four are dropped.  An identifier out of range increments \<open>invalid_ids\<close> and a payload
  of the wrong length increments \<open>invalid_data\<close>, but a declared length out of range and a
  missing field only write the log line: no counter of a failure class changes, only the
  two counters of received messages do.
\<close>

theorem rejected_dlc_not_counted:
  "process_incoming_message env new_server
     (Some \<lparr>msg_can_id = Some 0x100, msg_can_data = Some [0, 0, 0, 0, 0, 0, 0, 0], msg_dlc = Some 9\<rparr>)
   = new_server\<lparr>messages_received := 1,
        processor := new_processor_stats\<lparr>total_received := 1\<rparr>,
        error_log := [Invalid_DLC 9]\<rparr> \<and>
   process_incoming_message env new_server
     (Some \<lparr>msg_can_id = Some 0x100, msg_can_data = Some [0, 0, 0, 0, 0, 0, 0, 0], msg_dlc = None\<rparr>)
   = new_server\<lparr>messages_received := 1,
        processor := new_processor_stats\<lparr>total_received := 1\<rparr>,
        error_log := [Missing_required_field ''dlc'']\<rparr> \<and>
   process_incoming_message env new_server
     (Some \<lparr>msg_can_id = Some 0x800, msg_can_data = Some [0, 0, 0, 0, 0, 0, 0, 0], msg_dlc = Some 8\<rparr>)
   = new_server\<lparr>messages_received := 1,
        processor := new_processor_stats\<lparr>total_received := 1, invalid_ids := 1\<rparr>,
        error_log := [Invalid_CAN_ID 0x800]\<rparr> \<and>
   process_incoming_message env new_server
     (Some \<lparr>msg_can_id = Some 0x100, msg_can_data = Some [0, 0, 0, 0, 0, 0, 0], msg_dlc = Some 8\<rparr>)
   = new_server\<lparr>messages_received := 1,
        processor := new_processor_stats\<lparr>total_received := 1, invalid_data := 1\<rparr>,
        error_log := [Invalid_data_length 7]\<rparr>"
  by (simp add: process_incoming_message_def process_message_def validate_message_def
        new_server_def new_processor_stats_def Let_def)

section \<open>Properties of the VSS mapper\<close>

lemma map_signals_filter:
  "map_signals mapping ts sigs = map_signals mapping ts (filter (\<lambda>s. mapping (cs_name s) \<noteq> None) sigs)"
  by (induction sigs) (auto split: option.splits sum.splits)

lemma map_signals_unmapped:
  "\<forall>s \<in> set sigs. mapping (cs_name s) = None \<Longrightarrow> map_signals mapping ts sigs = Inr []"
  by (induction sigs) auto

lemma map_signals_length:
  "map_signals mapping ts sigs = Inr out \<Longrightarrow>
   length out = length (filter (\<lambda>s. mapping (cs_name s) \<noteq> None) sigs)"
  by (induction sigs arbitrary: out) (auto split: option.splits sum.splits)

lemma map_can_to_vss_filter:
  "map_can_to_vss mappings msg =
   map_can_to_vss mappings
     (msg\<lparr>cm_signals := filter (has_mapping mappings (cm_can_id msg)) (cm_signals msg)\<rparr>)"
proof (cases "mappings (cm_can_id msg)")
  case None
  then show ?thesis by (simp add: map_can_to_vss_def)
next
  case (Some mapping)
  then have "has_mapping mappings (cm_can_id msg) = (\<lambda>s. mapping (cs_name s) \<noteq> None)"
    by (auto simp: has_mapping_def)
  with Some show ?thesis
    using map_signals_filter[of mapping "cm_timestamp msg" "cm_signals msg"]
    by (simp add: map_can_to_vss_def)
qed

lemma map_can_to_vss_unmapped:
  assumes "\<forall>s \<in> set (cm_signals msg). \<not> has_mapping mappings (cm_can_id msg) s"
  shows "map_can_to_vss mappings msg = Inr []"
proof (cases "mappings (cm_can_id msg)")
  case None
  then show ?thesis by (simp add: map_can_to_vss_def)
next
  case (Some mapping)
  with assms have "\<forall>s \<in> set (cm_signals msg). mapping (cs_name s) = None"
    by (simp add: has_mapping_def)
  from map_signals_unmapped[OF this] Some show ?thesis
    by (simp add: map_can_to_vss_def)
qed

lemma map_can_to_vss_length:
  assumes "map_can_to_vss mappings msg = Inr out"
  shows "length out = length (filter (has_mapping mappings (cm_can_id msg)) (cm_signals msg))"
proof (cases "mappings (cm_can_id msg)")
  case None
  with assms show ?thesis by (simp add: map_can_to_vss_def has_mapping_def)
next
  case (Some mapping)
  then have "has_mapping mappings (cm_can_id msg) = (\<lambda>s. mapping (cs_name s) \<noteq> None)"
    by (auto simp: has_mapping_def)
  with Some assms map_signals_length[of mapping "cm_timestamp msg" "cm_signals msg" out]
  show ?thesis by (simp add: map_can_to_vss_def)
qed

lemma default_light_level:
  "map_can_to_vss (load_mappings None)
      (decoded_msg ts 0x100 [can_signal ''lightLevel'' (PyInt 80) ''%'' 255])
     = Inr [\<lparr>vs_path = ''Vehicle.Body.Lights.AmbientLight'', vs_value = PyFloat 80,
             vs_timestamp = ts, vs_data_type = ''uint8'', vs_min_value = 0, vs_max_value = 255,
             vs_unit = ''%'', vs_description = ''Ambient light level''\<rparr>]"
  by (simp add: map_can_to_vss_def load_mappings_def default_mappings_def decoded_msg_def
        can_signal_def convert_value_def unit_conversion_def)

text \<open>
  C8: under the built-in mapping a decoded signal \<open>lightLevel\<close> with value 80 of a frame
  \<open>0x100\<close> gives exactly one VSS signal, with path \<open>Vehicle.Body.Lights.AmbientLight\<close> and
  the value 80 (as the float that the conversion with scale 1.0 and offset 0.0 returns).
  For any mapping table and message, the signals without an entry for the pair of
  identifier and signal name do not change the result; if no signal has an entry the
  result is the empty list and no error; and a result has one VSS signal for each signal
  that has an entry.
\<close>

theorem vss_mapping_light_level:
  "map_can_to_vss (load_mappings None)
      (decoded_msg ts 0x100 [can_signal ''lightLevel'' (PyInt 80) ''%'' 255])
     = Inr [\<lparr>vs_path = ''Vehicle.Body.Lights.AmbientLight'', vs_value = PyFloat 80,
             vs_timestamp = ts, vs_data_type = ''uint8'', vs_min_value = 0, vs_max_value = 255,
             vs_unit = ''%'', vs_description = ''Ambient light level''\<rparr>] \<and>
   py_eq (PyFloat 80) (PyInt 80) \<and>
   map_can_to_vss mappings msg =
     map_can_to_vss mappings
       (msg\<lparr>cm_signals := filter (has_mapping mappings (cm_can_id msg)) (cm_signals msg)\<rparr>) \<and>
   ((\<forall>s \<in> set (cm_signals msg). \<not> has_mapping mappings (cm_can_id msg) s) \<longrightarrow>
      map_can_to_vss mappings msg = Inr []) \<and>
   (\<forall>out. map_can_to_vss mappings msg = Inr out \<longrightarrow>
      length out = length (filter (has_mapping mappings (cm_can_id msg)) (cm_signals msg)))"
  using default_light_level[of ts] map_can_to_vss_filter[of mappings msg]
    map_can_to_vss_unmapped[of msg mappings] map_can_to_vss_length[of mappings msg]
  by (simp del: py_eq.simps) simp

theorem vss_mapping_light_level_witness:
  "has_mapping (load_mappings None) 0x100 (can_signal ''ambient'' (PyInt 300) '''' 0) = False \<and>
   map_can_to_vss (load_mappings None)
     (decoded_msg 0 0x100 [can_signal ''ambient'' (PyInt 300) '''' 0]) = Inr [] \<and>
   filter (has_mapping (load_mappings None) 0x100) [can_signal ''ambient'' (PyInt 300) '''' 0] = []"
proof -
  let ?msg = "decoded_msg 0 0x100 [can_signal ''ambient'' (PyInt 300) '''' 0]"
  have n: "has_mapping (load_mappings None) 0x100 (can_signal ''ambient'' (PyInt 300) '''' 0) = False"
    by (simp add: can_signal_def has_mapping_def load_mappings_def default_mappings_def)
  then have h: "\<forall>s \<in> set (cm_signals ?msg). \<not> has_mapping (load_mappings None) (cm_can_id ?msg) s"
    by (simp add: decoded_msg_def)
  from vss_mapping_light_level[of 0 "load_mappings None" ?msg] h
  have e: "map_can_to_vss (load_mappings None) ?msg = Inr []"
    by blast
  from n have f: "filter (has_mapping (load_mappings None) 0x100)
      [can_signal ''ambient'' (PyInt 300) '''' 0] = []"
    by simp
  from n e f show ?thesis by blast
qed

section \<open>Properties of the simple zonal controller\<close>

text \<open>
  C10: \<open>process_message\<close> of the simple controller counts the message and then returns
  before decoding and mapping whenever the identifier is missing or zero, or the payload
  is missing or empty: nothing is decoded and no VSS entry is made.  Identifier 0 is
  dropped although the server's validation accepts it as an identifier in range; a
  frame \<open>0x100\<close> with a payload is decoded and mapped.
\<close>

theorem simple_controller_drops_zero_id:
  assumes "msg_can_id data = None \<or> msg_can_id data = Some 0 \<or>
           msg_can_data data = None \<or> msg_can_data data = Some []"
  shows "simple_process_message st data =
           (st\<lparr>ss_messages_received := ss_messages_received st + 1\<rparr>, None) \<and>
         fst (validate_message pst \<lparr>msg_can_id = Some 0,
                msg_can_data = Some [1, 50, 60, 0, 0, 0, 0, 0], msg_dlc = Some 8\<rparr>) \<and>
         snd (simple_process_message st \<lparr>msg_can_id = Some 0x100,
                msg_can_data = Some [1, 50, 60, 0, 0, 0, 0, 0], msg_dlc = Some 8\<rparr>) =
           Some ([(''headLamp'', PyBool True), (''tailLamp'', PyBool False),
                  (''brakeLamp'', PyBool False), (''indicatorLeft'', PyBool False),
                  (''indicatorRight'', PyBool False), (''lightLevel'', PyInt 50),
                  (''vehicleSpeed'', PyInt 60), (''ambient'', PyInt 0)],
                 [\<lparr>ve_path = ''Vehicle.Body.Lights.IsHighBeamOn'', ve_value = PyBool True,
                   ve_type = ''boolean''\<rparr>,
                  \<lparr>ve_path = ''Vehicle.Body.Lights.IsTailLightOn'', ve_value = PyBool False,
                   ve_type = ''boolean''\<rparr>,
                  \<lparr>ve_path = ''Vehicle.Body.Lights.AmbientLight'', ve_value = PyInt 50,
                   ve_type = ''uint8''\<rparr>,
                  \<lparr>ve_path = ''Vehicle.Speed'', ve_value = PyInt 60, ve_type = ''uint8''\<rparr>])"
proof -
  have drop: "simple_process_message st data =
           (st\<lparr>ss_messages_received := ss_messages_received st + 1\<rparr>, None)"
    using assms
    by (auto simp: simple_process_message_def Let_def split: option.splits)
  have ok: "fst (validate_message pst \<lparr>msg_can_id = Some 0,
                msg_can_data = Some [1, 50, 60, 0, 0, 0, 0, 0], msg_dlc = Some 8\<rparr>)"
    by (simp add: validate_message_def)
  have run: "snd (simple_process_message st \<lparr>msg_can_id = Some 0x100,
                msg_can_data = Some [1, 50, 60, 0, 0, 0, 0, 0], msg_dlc = Some 8\<rparr>) =
           Some ([(''headLamp'', PyBool True), (''tailLamp'', PyBool False),
                  (''brakeLamp'', PyBool False), (''indicatorLeft'', PyBool False),
                  (''indicatorRight'', PyBool False), (''lightLevel'', PyInt 50),
                  (''vehicleSpeed'', PyInt 60), (''ambient'', PyInt 0)],
                 [\<lparr>ve_path = ''Vehicle.Body.Lights.IsHighBeamOn'', ve_value = PyBool True,
                   ve_type = ''boolean''\<rparr>,
                  \<lparr>ve_path = ''Vehicle.Body.Lights.IsTailLightOn'', ve_value = PyBool False,
                   ve_type = ''boolean''\<rparr>,
                  \<lparr>ve_path = ''Vehicle.Body.Lights.AmbientLight'', ve_value = PyInt 50,
                   ve_type = ''uint8''\<rparr>,
                  \<lparr>ve_path = ''Vehicle.Speed'', ve_value = PyInt 60, ve_type = ''uint8''\<rparr>])"
    by (simp add: simple_process_message_def Let_def decode_can_data_8 map_to_vss_def)
  show ?thesis using drop ok run by (simp only: simp_thms)
qed

theorem simple_controller_drops_zero_id_witness:
  "(msg_can_id \<lparr>msg_can_id = Some 0, msg_can_data = Some [1, 50, 60, 0, 0, 0, 0, 0],
                 msg_dlc = Some 8\<rparr> = None \<or>
    msg_can_id \<lparr>msg_can_id = Some 0, msg_can_data = Some [1, 50, 60, 0, 0, 0, 0, 0],
                 msg_dlc = Some 8\<rparr> = Some 0 \<or>
    msg_can_data \<lparr>msg_can_id = Some 0, msg_can_data = Some [1, 50, 60, 0, 0, 0, 0, 0],
                 msg_dlc = Some 8\<rparr> = None \<or>
    msg_can_data \<lparr>msg_can_id = Some 0, msg_can_data = Some [1, 50, 60, 0, 0, 0, 0, 0],
                 msg_dlc = Some 8\<rparr> = Some []) \<and>
   simple_process_message \<lparr>ss_messages_received = 0, ss_errors = 0\<rparr>
     \<lparr>msg_can_id = Some 0, msg_can_data = Some [1, 50, 60, 0, 0, 0, 0, 0], msg_dlc = Some 8\<rparr>
     = (\<lparr>ss_messages_received = 1, ss_errors = 0\<rparr>, None)"
proof -
  let ?m = "\<lparr>msg_can_id = Some 0, msg_can_data = Some [1, 50, 60, 0, 0, 0, 0, 0],
              msg_dlc = Some 8\<rparr>"
  have h: "msg_can_id ?m = None \<or> msg_can_id ?m = Some 0 \<or>
           msg_can_data ?m = None \<or> msg_can_data ?m = Some []"
    by simp
  from simple_controller_drops_zero_id[OF h, of "\<lparr>ss_messages_received = 0, ss_errors = 0\<rparr>"]
  show ?thesis by simp
qed

end
